theory Spec2Isabelle
  imports Complex_Main "HOL-Library.Log_Nat"
begin

section \<open>Python values\<close>

text \<open>
  The services handle three kinds of data: cells of a pandas dataframe read from a CSV
  file, values of a decoded JSON request body, and the dictionaries they build from both.
  All of them are scalars here: \<open>None\<close>, booleans, unbounded integers, floats and text.
  JSON arrays and objects as field values are outside the model.

  A float is NaN, an infinity (the flag says whether it is negative) or a finite value,
  kept as the rational number it denotes; negative zero is identified with zero.
  Text is a \<open>string\<close>; the definitions below give \<open>str.strip\<close>, \<open>str.lower\<close> and
  \<open>float(str)\<close> their meaning on ASCII text.
\<close>

datatype pyfloat = FNaN | FInf bool | FFin rat

datatype pyval = PNone | PBool bool | PInt int | PFloat pyfloat | PStr string

text \<open>
  Two library functions are not defined here but taken as parameters: Unicode
  normalization \<open>unicodedata.normalize('NFKC', s)\<close> and the text \<open>repr(x)\<close> of a finite
  float \<open>x\<close> (the interpreter's shortest round-trip representation).
\<close>

record pylib =
  nfkc :: "string \<Rightarrow> string"
  float_repr :: "rat \<Rightarrow> string"

text \<open>A dictionary keeps its insertion order: an association list, read with \<open>map_of\<close>.\<close>

type_synonym pydict = "(string \<times> pyval) list"

text \<open>\<open>d.get(k)\<close> and \<open>d.get(k, default)\<close>.\<close>

definition dget :: "pydict \<Rightarrow> string \<Rightarrow> pyval" where
  "dget d k = (case map_of d k of None \<Rightarrow> PNone | Some v \<Rightarrow> v)"

definition dget_default :: "pydict \<Rightarrow> string \<Rightarrow> pyval \<Rightarrow> pyval" where
  "dget_default d k dflt = (case map_of d k of None \<Rightarrow> dflt | Some v \<Rightarrow> v)"

text \<open>Truth value of an object, as \<open>if x\<close>, \<open>not x\<close> and \<open>x or y\<close> test it. NaN is true.\<close>

fun truthy :: "pyval \<Rightarrow> bool" where
  "truthy PNone = False"
| "truthy (PBool b) = b"
| "truthy (PInt n) = (n \<noteq> 0)"
| "truthy (PFloat (FFin q)) = (q \<noteq> 0)"
| "truthy (PFloat _) = True"
| "truthy (PStr s) = (s \<noteq> [])"

text \<open>\<open>a or b\<close>: the first operand when it is true, the second otherwise.\<close>

definition py_or :: "pyval \<Rightarrow> pyval \<Rightarrow> pyval" where
  "py_or a b = (if truthy a then a else b)"

subsection \<open>Text\<close>

text \<open>
  The characters \<open>str.isspace\<close> accepts in the ASCII range: tab, line feed, vertical tab,
  form feed, carriage return, the four separators 0x1C to 0x1F, and the space.
\<close>

definition isspace :: "char \<Rightarrow> bool" where
  "isspace c = (let n = (of_char c :: nat) in (9 \<le> n \<and> n \<le> 13) \<or> (28 \<le> n \<and> n \<le> 32))"

definition strip :: "string \<Rightarrow> string" where
  "strip s = rev (dropWhile isspace (rev (dropWhile isspace s)))"

definition lower_char :: "char \<Rightarrow> char" where
  "lower_char c = (let n = (of_char c :: nat) in
     if 65 \<le> n \<and> n \<le> 90 then char_of (n + 32) else c)"

definition lower :: "string \<Rightarrow> string" where
  "lower s = map lower_char s"

text \<open>\<open>a in b\<close> on text: \<open>a\<close> occurs in \<open>b\<close> as a contiguous piece.\<close>

fun has_prefix :: "string \<Rightarrow> string \<Rightarrow> bool" where
  "has_prefix [] s = True"
| "has_prefix (a # as) [] = False"
| "has_prefix (a # as) (c # cs) = (a = c \<and> has_prefix as cs)"

fun py_in :: "string \<Rightarrow> string \<Rightarrow> bool" where
  "py_in a [] = (a = [])"
| "py_in a (c # cs) = (has_prefix a (c # cs) \<or> py_in a cs)"

text \<open>Decimal digits, for \<open>str(int)\<close> and \<open>float(str)\<close>.\<close>

definition is_digit :: "char \<Rightarrow> bool" where
  "is_digit c = (let n = (of_char c :: nat) in 48 \<le> n \<and> n \<le> 57)"

definition digit_val :: "char \<Rightarrow> nat" where
  "digit_val c = of_char c - 48"

definition digit_char :: "nat \<Rightarrow> char" where
  "digit_char d = char_of (48 + d)"

fun nat_of_digits :: "nat \<Rightarrow> string \<Rightarrow> nat" where
  "nat_of_digits acc [] = acc"
| "nat_of_digits acc (c # cs) = nat_of_digits (10 * acc + digit_val c) cs"

fun digits_of_nat :: "nat \<Rightarrow> string" where
  "digits_of_nat n =
     (if n < 10 then [digit_char n] else digits_of_nat (n div 10) @ [digit_char (n mod 10)])"

definition str_int :: "int \<Rightarrow> string" where
  "str_int n = (if n < 0 then CHR ''-'' # digits_of_nat (nat (- n)) else digits_of_nat (nat n))"

text \<open>\<open>str(x)\<close>.\<close>

fun py_str :: "pylib \<Rightarrow> pyval \<Rightarrow> string" where
  "py_str L PNone = ''None''"
| "py_str L (PBool b) = (if b then ''True'' else ''False'')"
| "py_str L (PInt n) = str_int n"
| "py_str L (PFloat FNaN) = ''nan''"
| "py_str L (PFloat (FInf neg)) = (if neg then ''-inf'' else ''inf'')"
| "py_str L (PFloat (FFin q)) = float_repr L q"
| "py_str L (PStr s) = s"

subsection \<open>Floats\<close>

text \<open>
  A decimal value becomes the nearest binary64 number, ties to even; a value that rounds
  to \<open>2 ^ 1024\<close> or beyond becomes an infinity. \<open>e\<close> is the binary exponent of the
  magnitude (not below that of the subnormal range), \<open>u\<close> the spacing of the binary64
  numbers at that exponent and \<open>n\<close> the rounded magnitude in units of \<open>u\<close>, at most
  \<open>2 ^ 53 = 9007199254740992\<close>. The rounded magnitude \<open>n * u\<close> reaches \<open>2 ^ 1024\<close> when
  \<open>e\<close> is 1024 or more, and when \<open>e\<close> is 1023 and \<open>n\<close> is \<open>2 ^ 53\<close>. Powers are computed
  by repeated squaring.
\<close>

fun power_sq :: "rat \<Rightarrow> nat \<Rightarrow> rat" where
  "power_sq b n =
     (if n = 0 then 1
      else if even n then power_sq (b * b) (n div 2)
      else b * power_sq (b * b) (n div 2))"

definition pow2 :: "int \<Rightarrow> rat" where
  "pow2 k = (if 0 \<le> k then power_sq 2 (nat k) else 1 / power_sq 2 (nat (- k)))"

definition round_half_even :: "rat \<Rightarrow> int" where
  "round_half_even q = (let f = \<lfloor>q\<rfloor>; r = q - of_int f in
     if r < 1 / 2 then f else if 1 / 2 < r then f + 1 else if even f then f else f + 1)"

definition ilog2 :: "rat \<Rightarrow> int" where
  "ilog2 a = (let (p, d) = quotient_of a;
                  k = int (floorlog 2 (nat p)) - int (floorlog 2 (nat d))
              in if pow2 k \<le> a then k else k - 1)"

definition round_binary64 :: "rat \<Rightarrow> pyfloat" where
  "round_binary64 q =
     (if q = 0 then FFin 0
      else let a = \<bar>q\<bar>; e = max (ilog2 a) (- 1022)
           in if 1024 \<le> e then FInf (q < 0)
              else let u = pow2 (e - 52); n = round_half_even (a / u)
                   in if e = 1023 \<and> n = 9007199254740992 then FInf (q < 0)
                      else FFin (if q < 0 then - (of_int n * u) else of_int n * u))"

text \<open>
  \<open>float(s)\<close> on text. The accepted forms, after stripping white space, are an optional
  sign followed by \<open>inf\<close>, \<open>infinity\<close> or \<open>nan\<close> in any case, or by a decimal number:
  digits with single underscores between them, an optional point, an optional exponent.
  \<open>None\<close> stands for the \<open>ValueError\<close> that \<open>float\<close> raises on any other text.
\<close>

fun digit_tail :: "string \<Rightarrow> string \<times> string" where
  "digit_tail [] = ([], [])"
| "digit_tail (c # cs) =
     (if is_digit c then (case digit_tail cs of (ds, r) \<Rightarrow> (c # ds, r))
      else if c = CHR ''_'' then
        (case cs of
           [] \<Rightarrow> ([], c # cs)
         | d # cs' \<Rightarrow>
             if is_digit d then (case digit_tail cs' of (ds, r) \<Rightarrow> (d # ds, r))
             else ([], c # cs))
      else ([], c # cs))"

definition digitpart :: "string \<Rightarrow> (string \<times> string) option" where
  "digitpart s =
     (case s of
        [] \<Rightarrow> None
      | c # cs \<Rightarrow> if is_digit c then (case digit_tail cs of (ds, r) \<Rightarrow> Some (c # ds, r)) else None)"

text \<open>The number before the exponent: integer digits, fraction digits, and the rest.\<close>

definition number_part :: "string \<Rightarrow> (string \<times> string \<times> string) option" where
  "number_part s =
     (case digitpart s of
        Some (ip, r) \<Rightarrow>
          (case r of
             [] \<Rightarrow> Some (ip, [], r)
           | c # r' \<Rightarrow>
               if c = CHR ''.'' then
                 (case digitpart r' of
                    Some (fp, r'') \<Rightarrow> Some (ip, fp, r'')
                  | None \<Rightarrow> Some (ip, [], r'))
               else Some (ip, [], r))
      | None \<Rightarrow>
          (case s of
             [] \<Rightarrow> None
           | c # r' \<Rightarrow>
               if c = CHR ''.'' then
                 (case digitpart r' of
                    Some (fp, r'') \<Rightarrow> Some ([], fp, r'')
                  | None \<Rightarrow> None)
               else None))"

text \<open>The exponent: absent, or \<open>e\<close> with an optional sign and digits up to the end.\<close>

definition exponent_part :: "string \<Rightarrow> int option" where
  "exponent_part s =
     (case s of
        [] \<Rightarrow> Some 0
      | c # r \<Rightarrow>
          if c = CHR ''e'' \<or> c = CHR ''E'' then
            (let (neg, r') = (case r of
                                [] \<Rightarrow> (False, r)
                              | x # xs \<Rightarrow> if x = CHR ''-'' then (True, xs)
                                           else if x = CHR ''+'' then (False, xs)
                                           else (False, r))
             in case digitpart r' of
                  Some (ds, []) \<Rightarrow>
                    Some (if neg then - int (nat_of_digits 0 ds) else int (nat_of_digits 0 ds))
                | _ \<Rightarrow> None)
          else None)"

definition pow10 :: "int \<Rightarrow> rat" where
  "pow10 k = (if 0 \<le> k then power_sq 10 (nat k) else 1 / power_sq 10 (nat (- k)))"

definition abs_float :: "string \<Rightarrow> pyfloat option" where
  "abs_float s =
     (if lower s = ''inf'' \<or> lower s = ''infinity'' then Some (FInf False)
      else if lower s = ''nan'' then Some FNaN
      else case number_part s of
             None \<Rightarrow> None
           | Some (ip, fp, r) \<Rightarrow>
               (case exponent_part r of
                  None \<Rightarrow> None
                | Some e \<Rightarrow>
                    Some (round_binary64
                            (of_nat (nat_of_digits 0 (ip @ fp)) * pow10 (e - int (length fp))))))"

fun negate :: "pyfloat \<Rightarrow> pyfloat" where
  "negate FNaN = FNaN"
| "negate (FInf neg) = FInf (\<not> neg)"
| "negate (FFin q) = FFin (- q)"

definition py_float :: "string \<Rightarrow> pyfloat option" where
  "py_float s =
     (case strip s of
        [] \<Rightarrow> None
      | c # cs \<Rightarrow>
          if c = CHR ''-'' then map_option negate (abs_float cs)
          else if c = CHR ''+'' then abs_float cs
          else abs_float (c # cs))"

section \<open>Failures\<close>

text \<open>
  Every \<open>raise\<close> of the services is a value of this type. The first four are raised
  as \<open>ValueError\<close>: a missing key column (the message lists the columns of the
  dataframe), a key that no row matches (the message quotes the stripped key), an empty
  bulk payload, and the \<open>ValueError\<close> that \<open>float\<close> and \<open>int\<close> raise on text that is no
  number and on NaN. \<open>OverflowError\<close> is what \<open>int\<close> raises on an infinity,
  \<open>KeyError\<close> what \<open>df[col]\<close> raises when the dataframe has no column \<open>col\<close>.
  \<open>PermissionError\<close> and \<open>IOError\<close> carry their message. \<open>SaveFailed\<close> is the plain
  \<open>Exception\<close> \<open>Failed to save ... data: ...\<close> with the text of its cause.
\<close>

datatype error =
    ColumnNotFound "string list"
  | NotFound string
  | NoDataProvided
  | ConversionError
  | OverflowError
  | KeyError string
  | PermissionError string
  | IOError string
  | SaveFailed string

text \<open>What \<open>except ValueError\<close> catches.\<close>

fun is_ValueError :: "error \<Rightarrow> bool" where
  "is_ValueError (ColumnNotFound cs) = True"
| "is_ValueError (NotFound k) = True"
| "is_ValueError NoDataProvided = True"
| "is_ValueError ConversionError = True"
| "is_ValueError _ = False"

text \<open>Sequencing of two steps of which the first may raise.\<close>

definition and_then :: "error + 'a \<Rightarrow> ('a \<Rightarrow> error + 'b) \<Rightarrow> error + 'b" where
  "and_then r f = (case r of Inl e \<Rightarrow> Inl e | Inr x \<Rightarrow> f x)"

section \<open>Numeric fields\<close>

text \<open>\<open>pd.isna(x)\<close> on a scalar: \<open>None\<close> and NaN.\<close>

fun isna :: "pyval \<Rightarrow> bool" where
  "isna PNone = True"
| "isna (PFloat FNaN) = True"
| "isna _ = False"

text \<open>\<open>int(x)\<close> on a float truncates towards zero; it raises on NaN and on an infinity.\<close>

definition toward_zero :: "rat \<Rightarrow> int" where
  "toward_zero q = (if 0 \<le> q then \<lfloor>q\<rfloor> else \<lceil>q\<rceil>)"

fun int_of_float :: "pyfloat \<Rightarrow> error + int" where
  "int_of_float FNaN = Inl ConversionError"
| "int_of_float (FInf neg) = Inl OverflowError"
| "int_of_float (FFin q) = Inr (toward_zero q)"

text \<open>\<open>int(float(s))\<close>.\<close>

definition int_float :: "string \<Rightarrow> error + int" where
  "int_float s = (case py_float s of None \<Rightarrow> Inl ConversionError | Some x \<Rightarrow> int_of_float x)"

text \<open>
  \<open>ToolService._parse_number\<close>: the whole body is inside \<open>try\<close>, and the handler
  \<open>except (ValueError, TypeError)\<close> returns 0. Nothing in the model raises \<open>TypeError\<close>.
\<close>

definition tool_parse_number :: "pylib \<Rightarrow> pyval \<Rightarrow> error + int" where
  "tool_parse_number L v =
     (if isna v \<or> v = PStr [] then Inr 0
      else case int_float (strip (py_str L v)) of
             Inr n \<Rightarrow> Inr n
           | Inl e \<Rightarrow> if is_ValueError e then Inr 0 else Inl e)"

text \<open>
  \<open>BabyPartService._parse_number\<close>: the test for missing values comes before the
  \<open>try\<close>, the conversion is inside it.
\<close>

definition baby_parse_number :: "pylib \<Rightarrow> pyval \<Rightarrow> error + int" where
  "baby_parse_number L v =
     (if v = PNone \<or> v = PStr [] \<or> isna v then Inr 0
      else case int_float (strip (py_str L v)) of
             Inr n \<Rightarrow> Inr n
           | Inl e \<Rightarrow> if is_ValueError e then Inr 0 else Inl e)"

section \<open>Dataframes\<close>

text \<open>
  A dataframe has its column labels, in order, and its rows. A row gives a cell to a
  column; a column for which a row has no entry holds NaN there, as in pandas. Column
  labels are taken to be distinct.
\<close>

record dataframe =
  columns :: "string list"
  rows :: "pydict list"

definition cell :: "pydict \<Rightarrow> string \<Rightarrow> pyval" where
  "cell r c = (case map_of r c of None \<Rightarrow> PFloat FNaN | Some v \<Rightarrow> v)"

text \<open>\<open>df.to_dict(orient="records")\<close>: one dictionary per row, keyed by the columns.\<close>

definition record_of :: "string list \<Rightarrow> pydict \<Rightarrow> pydict" where
  "record_of cols r = map (\<lambda>c. (c, cell r c)) cols"

definition to_dict_records :: "dataframe \<Rightarrow> pydict list" where
  "to_dict_records df = map (record_of (columns df)) (rows df)"

text \<open>
  The two filters every reader applies to the key column \<open>col\<close>:
  \<open>df = df[df[col].notna()]\<close> and \<open>df = df[df[col].astype(str).str.strip() != '']\<close>.
\<close>

definition blank_key :: "pylib \<Rightarrow> string \<Rightarrow> pydict \<Rightarrow> bool" where
  "blank_key L col r = (isna (cell r col) \<or> strip (py_str L (cell r col)) = [])"

definition drop_blank :: "pylib \<Rightarrow> string \<Rightarrow> dataframe \<Rightarrow> dataframe" where
  "drop_blank L col df = df\<lparr>rows := filter (\<lambda>r. \<not> blank_key L col r) (rows df)\<rparr>"

text \<open>
  \<open>df[name] = ...\<close>: the column is replaced where it exists and added as the last one
  otherwise; \<open>f\<close> gives each row its new cell.
\<close>

definition assign_column :: "string \<Rightarrow> (pydict \<Rightarrow> pyval) \<Rightarrow> dataframe \<Rightarrow> dataframe" where
  "assign_column name f df =
     \<lparr>columns = (if name \<in> set (columns df) then columns df else columns df @ [name]),
      rows = map (\<lambda>r. (name, f r) # r) (rows df)\<rparr>"

section \<open>Key resolution\<close>

text \<open>
  Both \<open>get_by_tools_name\<close> and \<open>get_by_baby_part_name\<close> compute, for the query and for
  the key cell of each row, the text stripped and then NFKC-normalized. The first pass
  keeps the rows whose normalized key equals the normalized query; the second pass, run
  only when the first keeps nothing, compares the lower-cased texts.
\<close>

definition normalized_query :: "pylib \<Rightarrow> string \<Rightarrow> string" where
  "normalized_query L name = nfkc L (strip name)"

definition normalized_key :: "pylib \<Rightarrow> string \<Rightarrow> pydict \<Rightarrow> string" where
  "normalized_key L col r = nfkc L (strip (py_str L (cell r col)))"

definition exact_pass :: "pylib \<Rightarrow> string \<Rightarrow> string \<Rightarrow> pydict list \<Rightarrow> pydict list" where
  "exact_pass L col name rs =
     filter (\<lambda>r. normalized_key L col r = normalized_query L name) rs"

definition caseless_pass :: "pylib \<Rightarrow> string \<Rightarrow> string \<Rightarrow> pydict list \<Rightarrow> pydict list" where
  "caseless_pass L col name rs =
     filter (\<lambda>r. lower (normalized_key L col r) = lower (normalized_query L name)) rs"

definition matching :: "pylib \<Rightarrow> string \<Rightarrow> string \<Rightarrow> pydict list \<Rightarrow> pydict list" where
  "matching L col name rs =
     (if exact_pass L col name rs = [] then caseless_pass L col name rs
      else exact_pass L col name rs)"

section \<open>The tool service\<close>

text \<open>
  The key column of \<open>stock_detail.csv\<close>: \<open>part_name\<close>, or else the first column whose
  lower-cased label contains both \<open>part\<close> and \<open>name\<close>.
\<close>

definition tool_key_column :: "dataframe \<Rightarrow> string option" where
  "tool_key_column df =
     (if ''part_name'' \<in> set (columns df) then Some ''part_name''
      else case filter (\<lambda>c. py_in ''part'' (lower c) \<and> py_in ''name'' (lower c)) (columns df) of
             [] \<Rightarrow> None
           | c # cs \<Rightarrow> Some c)"

text \<open>
  The dictionary that \<open>get_all\<close> and \<open>get_by_tools_name\<close> build from a row \<open>tool\<close> and its
  stripped key \<open>part_name\<close>. The three stock numbers are parsed first for the new field
  names and again for the original ones; the first parse that raises ends the call.
\<close>

definition str_field :: "pylib \<Rightarrow> pydict \<Rightarrow> string \<Rightarrow> pyval \<Rightarrow> pyval" where
  "str_field L d k dflt = PStr (strip (py_str L (dget_default d k dflt)))"

definition tool_view :: "pylib \<Rightarrow> pydict \<Rightarrow> string \<Rightarrow> error + pydict" where
  "tool_view L tool part_name =
     and_then (tool_parse_number L (dget_default tool ''total'' (PInt 0))) (\<lambda>total.
     and_then (tool_parse_number L (dget_default tool ''new'' (PInt 0))) (\<lambda>new.
     and_then (tool_parse_number L (dget_default tool ''old'' (PInt 0))) (\<lambda>old.
     Inr [(''id'', PStr part_name),
          (''tools_name'', PStr part_name),
          (''current_stock'', PInt total),
          (''stock_new'', PInt new),
          (''stock_old'', PInt old),
          (''stock_detail'', str_field L tool ''detail_specification'' (PStr [])),
          (''photo'', str_field L tool ''picture'' (PStr [])),
          (''uom'', str_field L tool ''uom'' (PStr ''Pcs'')),
          (''remark'', str_field L tool ''remark'' (PStr [])),
          (''description'', str_field L tool ''detail_specification'' (PStr [])),
          (''Part Name'', PStr part_name),
          (''Detail Specification'', str_field L tool ''detail_specification'' (PStr [])),
          (''Picture'', str_field L tool ''picture'' (PStr [])),
          (''Total'', PInt total),
          (''NEW'', PInt new),
          (''OLD'', PInt old),
          (''UOM'', str_field L tool ''uom'' (PStr ''Pcs'')),
          (''Remark'', str_field L tool ''remark'' (PStr []))])))"

text \<open>
  \<open>ToolService.get_all\<close>, on the dataframe \<open>df\<close> that \<open>_get_dataframe()\<close> returns. With no
  key column the result is the empty list. The loop skips a row whose stripped key is
  empty and appends the view of every other row.
\<close>

fun tool_views :: "pylib \<Rightarrow> string \<Rightarrow> pydict list \<Rightarrow> error + pydict list" where
  "tool_views L col [] = Inr []"
| "tool_views L col (tool # tools) =
     (let part_name = strip (py_str L (dget_default tool col (PStr [])))
      in if part_name = [] then tool_views L col tools
         else and_then (tool_view L tool part_name) (\<lambda>v.
              and_then (tool_views L col tools) (\<lambda>vs. Inr (v # vs))))"

definition tool_get_all :: "pylib \<Rightarrow> dataframe \<Rightarrow> error + pydict list" where
  "tool_get_all L df =
     (case tool_key_column df of
        None \<Rightarrow> Inr []
      | Some col \<Rightarrow> tool_views L col (to_dict_records (drop_blank L col df)))"

text \<open>
  \<open>ToolService.get_by_tools_name\<close>. The normalized keys are stored in the added column
  \<open>_normalized_part_name\<close> before the two passes read them; the first record of the
  matching rows is the one returned. \<open>normalized_record\<close> is the dictionary that
  \<open>to_dict\<close> gives for a row once that column has been added.
\<close>

definition with_normalized :: "pylib \<Rightarrow> string \<Rightarrow> string \<Rightarrow> dataframe \<Rightarrow> dataframe" where
  "with_normalized L name col df = assign_column name (\<lambda>r. PStr (normalized_key L col r)) df"

definition stored_pass :: "string \<Rightarrow> (string \<Rightarrow> string) \<Rightarrow> string \<Rightarrow> dataframe \<Rightarrow> dataframe" where
  "stored_pass name f q df =
     df\<lparr>rows := filter (\<lambda>r. f (case cell r name of PStr s \<Rightarrow> s | _ \<Rightarrow> []) = f q) (rows df)\<rparr>"

definition stored_matching :: "pylib \<Rightarrow> string \<Rightarrow> string \<Rightarrow> dataframe \<Rightarrow> dataframe" where
  "stored_matching L name q df =
     (if rows (stored_pass name (\<lambda>s. s) (normalized_query L q) df) = []
      then stored_pass name lower (normalized_query L q) df
      else stored_pass name (\<lambda>s. s) (normalized_query L q) df)"

definition normalized_record :: "pylib \<Rightarrow> string \<Rightarrow> string \<Rightarrow> dataframe \<Rightarrow> pydict \<Rightarrow> pydict" where
  "normalized_record L name col df r =
     record_of (columns (with_normalized L name col df))
       ((name, PStr (normalized_key L col r)) # r)"

definition tool_of_record :: "pylib \<Rightarrow> string \<Rightarrow> pydict \<Rightarrow> error + pydict" where
  "tool_of_record L col tool =
     tool_view L tool (strip (py_str L (dget_default tool col (PStr []))))"

definition get_by_tools_name :: "pylib \<Rightarrow> dataframe \<Rightarrow> string \<Rightarrow> error + pydict" where
  "get_by_tools_name L df tools_name =
     (case tool_key_column df of
        None \<Rightarrow> Inl (ColumnNotFound (columns df))
      | Some col \<Rightarrow>
          (let df1 = with_normalized L ''_normalized_part_name'' col (drop_blank L col df);
               found = stored_matching L ''_normalized_part_name'' tools_name df1
           in case to_dict_records found of
                [] \<Rightarrow> Inl (NotFound (strip tools_name))
              | tool # others \<Rightarrow> tool_of_record L col tool))"

section \<open>The baby part service\<close>

text \<open>
  The key column of \<open>baby_part.csv\<close> as \<open>get_by_baby_part_name\<close> finds it: \<open>baby_parts\<close>,
  or else the first column whose lower-cased label contains both \<open>baby\<close> and \<open>part\<close>.
  \<open>get_all\<close> falls back further, to the first column, and to the label \<open>baby_parts\<close>
  when the dataframe has no column at all.
\<close>

definition baby_key_column :: "dataframe \<Rightarrow> string option" where
  "baby_key_column df =
     (if ''baby_parts'' \<in> set (columns df) then Some ''baby_parts''
      else case filter (\<lambda>c. py_in ''baby'' (lower c) \<and> py_in ''part'' (lower c)) (columns df) of
             [] \<Rightarrow> None
           | c # cs \<Rightarrow> Some c)"

definition baby_list_column :: "dataframe \<Rightarrow> string" where
  "baby_list_column df =
     (case baby_key_column df of
        Some c \<Rightarrow> c
      | None \<Rightarrow> (case columns df of [] \<Rightarrow> ''baby_parts'' | c # cs \<Rightarrow> c))"

text \<open>
  The quantity column: \<open>qty\<close>, or else the first column whose lower-cased label contains
  \<open>qty\<close> or \<open>quantity\<close>, or else the second column, or else the label \<open>qty\<close>.
\<close>

definition qty_column :: "dataframe \<Rightarrow> string" where
  "qty_column df =
     (if ''qty'' \<in> set (columns df) then ''qty''
      else case filter (\<lambda>c. py_in ''qty'' (lower c) \<or> py_in ''quantity'' (lower c)) (columns df) of
             c # cs \<Rightarrow> c
           | [] \<Rightarrow> (case columns df of a # b # cs \<Rightarrow> b | _ \<Rightarrow> ''qty''))"

definition baby_view :: "string \<Rightarrow> int \<Rightarrow> pydict" where
  "baby_view name qty =
     [(''id'', PStr name), (''baby_parts'', PStr name), (''qty'', PInt qty),
      (''Baby Parts'', PStr name), (''Qty'', PInt qty)]"

text \<open>
  \<open>BabyPartService.get_all\<close>. Reading the key column of a dataframe that lacks it raises
  \<open>KeyError\<close>. The loop goes over the rows of the filtered dataframe.
\<close>

fun baby_views :: "pylib \<Rightarrow> string \<Rightarrow> string \<Rightarrow> pydict list \<Rightarrow> error + pydict list" where
  "baby_views L col qcol [] = Inr []"
| "baby_views L col qcol (row # rest) =
     (let baby_part_name = strip (py_str L (dget_default row col (PStr [])))
      in if baby_part_name = [] then baby_views L col qcol rest
         else and_then (baby_parse_number L (dget_default row qcol (PInt 0))) (\<lambda>qty.
              and_then (baby_views L col qcol rest) (\<lambda>vs.
              Inr (baby_view baby_part_name qty # vs))))"

definition baby_get_all :: "pylib \<Rightarrow> dataframe \<Rightarrow> error + pydict list" where
  "baby_get_all L df =
     (let col = baby_list_column df; qcol = qty_column df
      in if col \<notin> set (columns df) then Inl (KeyError col)
         else baby_views L col qcol (to_dict_records (drop_blank L col df)))"

text \<open>
  \<open>BabyPartService.get_by_baby_part_name\<close>. The quantity column is looked up after the
  column \<open>_normalized_baby_part_name\<close> has been added to the dataframe.
\<close>

definition baby_of_record :: "pylib \<Rightarrow> dataframe \<Rightarrow> string \<Rightarrow> pydict \<Rightarrow> error + pydict" where
  "baby_of_record L df1 col baby_part =
     and_then (baby_parse_number L (dget_default baby_part (qty_column df1) (PInt 0)))
       (\<lambda>qty. Inr (baby_view (strip (py_str L (dget_default baby_part col (PStr [])))) qty))"

definition get_by_baby_part_name :: "pylib \<Rightarrow> dataframe \<Rightarrow> string \<Rightarrow> error + pydict" where
  "get_by_baby_part_name L df baby_part_name =
     (case baby_key_column df of
        None \<Rightarrow> Inl (ColumnNotFound (columns df))
      | Some col \<Rightarrow>
          (let df1 = with_normalized L ''_normalized_baby_part_name'' col (drop_blank L col df);
               found = stored_matching L ''_normalized_baby_part_name'' baby_part_name df1
           in case to_dict_records found of
                [] \<Rightarrow> Inl (NotFound (strip baby_part_name))
              | baby_part # others \<Rightarrow> baby_of_record L df1 col baby_part))"

section \<open>Writing the file\<close>

text \<open>
  The backing file as \<open>_save_dataframe\<close> meets it: its path, whether it exists
  (\<open>os.path.exists\<close>), whether the process may write it (\<open>os.access(path, os.W_OK)\<close>), what
  opening it for update and reading one character does, what \<open>to_csv\<close> does, and the
  table the file holds. An \<open>OSError\<close> of the probe has its \<open>errno\<close> and its text; every
  other failure has its text \<open>str(e)\<close>.
\<close>

datatype probe_result = Opened | OpenFailed "nat option" string | OpenRaised string

datatype write_result = Written | WriteDenied string | WriteFailed string | WriteRaised string

record backing_file =
  file_path :: string
  file_exists :: bool
  write_access :: bool
  probe :: probe_result
  to_csv :: write_result
  table :: dataframe

definition quoted :: "string \<Rightarrow> string" where
  "quoted s = CHR 0x27 # s @ [CHR 0x27]"

definition msg_read_only :: "string \<Rightarrow> string" where
  "msg_read_only path =
     ''File '' @ quoted path @ '' is read-only or locked. '' @
     ''Please close the file if it's open in another application (Excel, Notepad, etc.) '' @
     ''and ensure you have write permissions.''"

definition msg_locked :: "string \<Rightarrow> string" where
  "msg_locked path =
     ''Permission denied: Cannot write to file '' @ quoted path @ ''. '' @
     ''The file may be:\<newline>'' @
     ''1. Open in another application (Excel, Notepad, etc.) - Please close it\<newline>'' @
     ''2. Set to read-only - Check file properties and remove read-only attribute\<newline>'' @
     ''3. Locked by another process - Restart your computer if needed\<newline>'' @
     ''4. Protected by antivirus - Check antivirus settings''"

definition msg_cannot_access :: "string \<Rightarrow> string \<Rightarrow> string" where
  "msg_cannot_access path e = ''Cannot access file '' @ quoted path @ ''. '' @ ''Error: '' @ e"

definition msg_save_denied :: "string \<Rightarrow> string \<Rightarrow> string" where
  "msg_save_denied path e =
     ''Permission denied: Cannot save to file '' @ quoted path @ ''. '' @
     ''Error: '' @ e @ ''\<newline>'' @
     ''Please ensure:\<newline>'' @
     ''1. The file is not open in Excel, Notepad, or any other application\<newline>'' @
     ''2. You have write permissions to the file and directory\<newline>'' @
     ''3. The file is not set to read-only\<newline>'' @
     ''4. No antivirus is blocking file access''"

definition msg_close_file :: "string \<Rightarrow> string \<Rightarrow> string" where
  "msg_close_file path e =
     ''Cannot write to file '' @ quoted path @ ''. '' @
     ''Error: '' @ e @ ''\<newline>'' @
     ''Please close the file if it's open in another application.''"

definition msg_cannot_write :: "string \<Rightarrow> string \<Rightarrow> string" where
  "msg_cannot_write path e =
     ''Cannot write to file '' @ quoted path @ ''. '' @
     ''Error: '' @ e @ ''\<newline>'' @
     ''Please ensure the file is not open in another application.''"

definition msg_denied_other :: "string \<Rightarrow> string" where
  "msg_denied_other path =
     ''Permission denied: Cannot save to file '' @ quoted path @ ''. '' @
     ''Please close the file if it's open in Excel, Notepad, or any other application, '' @
     ''and ensure you have write permissions.''"

text \<open>
  The three outer handlers of \<open>_save_dataframe\<close>: a \<open>PermissionError\<close> goes through as it
  is, any other \<open>OSError\<close> is raised again as \<open>IOError\<close> with a new message around its text,
  and every other exception becomes a \<open>PermissionError\<close> when its text mentions a denied
  permission and a plain \<open>Exception\<close> otherwise.
\<close>

definition outer_io :: "string \<Rightarrow> string \<Rightarrow> error" where
  "outer_io path e = IOError (msg_cannot_write path e)"

definition outer_other :: "string \<Rightarrow> string \<Rightarrow> string \<Rightarrow> error" where
  "outer_other entity path e =
     (if py_in ''Permission denied'' e \<or> py_in ''Errno 13'' e \<or> py_in ''[Errno 13]'' e
      then PermissionError (msg_denied_other path)
      else SaveFailed (''Failed to save '' @ entity @ '' data: '' @ e))"

text \<open>
  The checks made when the file exists, before anything is written: \<open>None\<close> when they
  pass, the exception that leaves \<open>_save_dataframe\<close> otherwise.
\<close>

definition pre_write_check :: "string \<Rightarrow> backing_file \<Rightarrow> error option" where
  "pre_write_check entity f =
     (if file_exists f then
        (if \<not> write_access f then Some (PermissionError (msg_read_only (file_path f)))
         else case probe f of
                Opened \<Rightarrow> None
              | OpenFailed errno e \<Rightarrow>
                  if errno = Some 13 then Some (PermissionError (msg_locked (file_path f)))
                  else Some (outer_io (file_path f) (msg_cannot_access (file_path f) e))
              | OpenRaised e \<Rightarrow> Some (outer_other entity (file_path f) e))
      else None)"

text \<open>
  The write itself, \<open>df_to_save.to_csv(self.file_path, ...)\<close>, with its two inner
  handlers. A successful write replaces the table of the file.
\<close>

definition write_csv :: "string \<Rightarrow> backing_file \<Rightarrow> dataframe \<Rightarrow> (error + unit) \<times> backing_file" where
  "write_csv entity f df_to_save =
     (case to_csv f of
        Written \<Rightarrow> (Inr (), f\<lparr>file_exists := True, table := df_to_save\<rparr>)
      | WriteDenied e \<Rightarrow> (Inl (PermissionError (msg_save_denied (file_path f) e)), f)
      | WriteFailed e \<Rightarrow> (Inl (outer_io (file_path f) (msg_close_file (file_path f) e)), f)
      | WriteRaised e \<Rightarrow> (Inl (outer_other entity (file_path f) e), f))"

definition save_frame :: "string \<Rightarrow> backing_file \<Rightarrow> dataframe \<Rightarrow> (error + unit) \<times> backing_file" where
  "save_frame entity f df_to_save =
     (case pre_write_check entity f of
        Some e \<Rightarrow> (Inl e, f)
      | None \<Rightarrow> write_csv entity f df_to_save)"

text \<open>
  The frame that is written. Columns are renamed by the mapping of
  \<open>_get_original_column_mapping\<close>, then listed in the original order followed by the
  columns that order does not name, and \<open>df_to_save[final_columns]\<close> keeps exactly the
  listed ones. In the tool service the column \<open>Brand\<close> is assigned between the
  computation of \<open>final_columns\<close> and that selection.
\<close>

definition rename_columns :: "(string \<times> string) list \<Rightarrow> dataframe \<Rightarrow> dataframe" where
  "rename_columns mapping df =
     (let to = (\<lambda>c. case map_of mapping c of None \<Rightarrow> c | Some c' \<Rightarrow> c')
      in \<lparr>columns = map to (columns df), rows = map (map (\<lambda>(c, v). (to c, v))) (rows df)\<rparr>)"

definition select_columns :: "string list \<Rightarrow> dataframe \<Rightarrow> dataframe" where
  "select_columns cols df = \<lparr>columns = cols, rows = map (record_of cols) (rows df)\<rparr>"

definition final_columns :: "string list \<Rightarrow> dataframe \<Rightarrow> string list" where
  "final_columns original_order df =
     (let columns_to_include = filter (\<lambda>c. c \<in> set (columns df)) original_order;
          remaining_cols = filter (\<lambda>c. c \<notin> set columns_to_include) (columns df)
      in columns_to_include @ remaining_cols)"

definition tool_column_mapping :: "(string \<times> string) list" where
  "tool_column_mapping =
     [(''part_name'', ''Part Name''), (''brand'', ''Brand''),
      (''detail_specification'', ''Detail Specification''), (''picture'', ''Picture''),
      (''total'', ''Total''), (''new'', ''NEW''), (''old'', ''OLD''), (''uom'', ''UOM''),
      (''remark'', ''Remark'')]"

definition tool_original_order :: "string list" where
  "tool_original_order =
     [''Part Name'', ''Brand'', ''Detail Specification'', ''Picture'', ''Total'', ''NEW'',
      ''OLD'', ''UOM'', ''Remark'']"

definition tool_frame_to_save :: "dataframe \<Rightarrow> dataframe" where
  "tool_frame_to_save df =
     (let df_to_save = rename_columns tool_column_mapping df;
          final = final_columns tool_original_order df_to_save;
          df_to_save = (if ''Brand'' \<notin> set (columns df_to_save)
                        then assign_column ''Brand'' (\<lambda>r. PStr []) df_to_save
                        else df_to_save)
      in select_columns final df_to_save)"

definition tool_save_dataframe :: "backing_file \<Rightarrow> dataframe \<Rightarrow> (error + unit) \<times> backing_file" where
  "tool_save_dataframe f df = save_frame ''tool'' f (tool_frame_to_save df)"

definition baby_column_mapping :: "(string \<times> string) list" where
  "baby_column_mapping = [(''baby_parts'', ''Baby Parts''), (''qty'', ''Qty'')]"

definition baby_original_order :: "string list" where
  "baby_original_order = [''Baby Parts'', ''Qty'']"

definition baby_frame_to_save :: "dataframe \<Rightarrow> dataframe" where
  "baby_frame_to_save df =
     (let df_to_save = rename_columns baby_column_mapping df
      in select_columns (final_columns baby_original_order df_to_save) df_to_save)"

definition baby_save_dataframe :: "backing_file \<Rightarrow> dataframe \<Rightarrow> (error + unit) \<times> backing_file" where
  "baby_save_dataframe f df = save_frame ''baby_part'' f (baby_frame_to_save df)"

section \<open>The shared record store\<close>

text \<open>
  Both services inherit from \<open>BaseService\<close> (\<open>backend/services/base_service.py\<close>), which
  is not among the sources; they reach it through \<open>super().update\<close>, \<open>super().delete\<close>
  and \<open>super().bulk_upsert\<close>. The definitions of this section stand for those three
  methods and follow the specification of the record store. Each takes the key column
  of the loaded dataframe as the service finds it (\<open>None\<close> when the dataframe has none),
  the dataframe, the backing file, and the \<open>_save_dataframe\<close> of the service.
\<close>

type_synonym saver = "backing_file \<Rightarrow> dataframe \<Rightarrow> (error + unit) \<times> backing_file"

fun first_index :: "('a \<Rightarrow> bool) \<Rightarrow> 'a list \<Rightarrow> nat option" where
  "first_index P [] = None"
| "first_index P (x # xs) = (if P x then Some 0 else map_option Suc (first_index P xs))"

text \<open>
  Modelled from the spec: the Text Matcher of section 4.2, the part of \<open>BaseService\<close> that
  resolves a key to a row. Rows with a blank key do not belong to the collection
  (section 4.1). Step 1 is the exact match of the trimmed, NFKC-normalized texts; step 2,
  taken if step 1 finds nothing, repeats the comparison case-insensitively. The result
  is the position of the first matching row, or \<open>None\<close> for the condition NotFound.
\<close>

definition resolve :: "pylib \<Rightarrow> string \<Rightarrow> dataframe \<Rightarrow> string \<Rightarrow> nat option" where
  "resolve L col df key =
     (case first_index (\<lambda>r. \<not> blank_key L col r \<and>
                              normalized_key L col r = normalized_query L key) (rows df) of
        Some i \<Rightarrow> Some i
      | None \<Rightarrow>
          first_index (\<lambda>r. \<not> blank_key L col r \<and>
                            lower (normalized_key L col r) = lower (normalized_query L key))
                      (rows df))"

definition add_columns :: "string list \<Rightarrow> dataframe \<Rightarrow> string list" where
  "add_columns labels df = columns df @ filter (\<lambda>c. c \<notin> set (columns df)) (remdups labels)"

definition ack :: "pydict" where
  "ack = [(''ok'', PBool True)]"

text \<open>
  Modelled from the spec: \<open>BaseService.update\<close>, section 4.3. The target row is resolved
  by the Text Matcher and receives the given fields; if the key does not resolve, the
  update proceeds as an insert of a row with the given key and the given fields. The
  collection is then persisted through the service's \<open>_save_dataframe\<close>, and the
  acknowledgement is tagged \<open>no_changes: false\<close>.
\<close>

definition base_update ::
  "pylib \<Rightarrow> saver \<Rightarrow> string option \<Rightarrow> dataframe \<Rightarrow> backing_file \<Rightarrow> string \<Rightarrow> pydict
     \<Rightarrow> (error + pydict) \<times> backing_file" where
  "base_update L save key_column df f key data =
     (case key_column of
        None \<Rightarrow> (Inl (ColumnNotFound (columns df)), f)
      | Some col \<Rightarrow>
          (let new_rows = (case resolve L col df key of
                             Some i \<Rightarrow> (rows df)[i := data @ rows df ! i]
                           | None \<Rightarrow> rows df @ [(col, PStr key) # data]);
               df' = \<lparr>columns = add_columns (map fst data) df, rows = new_rows\<rparr>
           in case save f df' of
                (Inl e, f') \<Rightarrow> (Inl e, f')
              | (Inr u, f') \<Rightarrow> (Inr (ack @ [(''no_changes'', PBool False)]), f')))"

text \<open>
  Modelled from the spec: \<open>BaseService.delete\<close>, section 4.3. The key is resolved by the
  Text Matcher, the row is removed and the collection persisted; the operation fails
  with NotFound if the key does not resolve.
\<close>

definition base_delete ::
  "pylib \<Rightarrow> saver \<Rightarrow> string option \<Rightarrow> dataframe \<Rightarrow> backing_file \<Rightarrow> string
     \<Rightarrow> (error + pydict) \<times> backing_file" where
  "base_delete L save key_column df f key =
     (case key_column of
        None \<Rightarrow> (Inl (ColumnNotFound (columns df)), f)
      | Some col \<Rightarrow>
          (case resolve L col df key of
             None \<Rightarrow> (Inl (NotFound (strip key)), f)
           | Some i \<Rightarrow>
               (case save f (df\<lparr>rows := take i (rows df) @ drop (Suc i) (rows df)\<rparr>) of
                  (Inl e, f') \<Rightarrow> (Inl e, f')
                | (Inr u, f') \<Rightarrow> (Inr ack, f'))))"

text \<open>
  Modelled from the spec: \<open>BaseService.bulk_upsert\<close>, section 4.3. A record lacking a
  value in the primary-key field \<open>pk\<close> is skipped; any other record replaces in place the
  existing row that its key resolves to, and is appended when there is none. The file
  is written once for the whole batch, and the acknowledgement carries the counts of
  appended and of replaced rows.
\<close>

fun upsert_records ::
  "pylib \<Rightarrow> string \<Rightarrow> string \<Rightarrow> pydict list \<Rightarrow> dataframe \<times> nat \<times> nat \<Rightarrow> dataframe \<times> nat \<times> nat" where
  "upsert_records L col pk [] acc = acc"
| "upsert_records L col pk (r # rs) (df, created, updated) =
     (if \<not> truthy (dget r pk) then upsert_records L col pk rs (df, created, updated)
      else case resolve L col df (py_str L (dget r pk)) of
             Some i \<Rightarrow>
               upsert_records L col pk rs
                 (\<lparr>columns = add_columns (map fst r) df, rows = (rows df)[i := r]\<rparr>,
                  created, Suc updated)
           | None \<Rightarrow>
               upsert_records L col pk rs
                 (\<lparr>columns = add_columns (map fst r) df, rows = rows df @ [r]\<rparr>,
                  Suc created, updated))"

definition base_bulk_upsert ::
  "pylib \<Rightarrow> saver \<Rightarrow> string option \<Rightarrow> string \<Rightarrow> dataframe \<Rightarrow> backing_file \<Rightarrow> pydict list
     \<Rightarrow> (error + pydict) \<times> backing_file" where
  "base_bulk_upsert L save key_column pk df f records =
     (case key_column of
        None \<Rightarrow> (Inl (ColumnNotFound (columns df)), f)
      | Some col \<Rightarrow>
          (case upsert_records L col pk records (df, 0, 0) of
             (df', created, updated) \<Rightarrow>
               (case save f df' of
                  (Inl e, f') \<Rightarrow> (Inl e, f')
                | (Inr u, f') \<Rightarrow>
                    (Inr (ack @ [(''created'', PInt (int created)),
                                 (''updated'', PInt (int updated))]), f'))))"

section \<open>Updating, deleting and importing tools\<close>

text \<open>
  \<open>normalize_value\<close>, the local function of both update methods: \<open>None\<close> becomes the
  empty text, a float with an integral value becomes that integer, any other number
  stays, and text is stripped.
\<close>

fun normalize_value :: "pyval \<Rightarrow> pyval" where
  "normalize_value PNone = PStr []"
| "normalize_value (PBool b) = PBool b"
| "normalize_value (PInt n) = PInt n"
| "normalize_value (PFloat (FFin q)) = (if q = of_int \<lfloor>q\<rfloor> then PInt \<lfloor>q\<rfloor> else PFloat (FFin q))"
| "normalize_value (PFloat x) = PFloat x"
| "normalize_value (PStr s) = PStr (strip s)"

text \<open>
  \<open>a != b\<close>. Numbers, booleans among them, are compared by value, and NaN differs from
  everything; text equals text only; \<open>None\<close> equals \<open>None\<close> only.
\<close>

fun number_of :: "pyval \<Rightarrow> pyfloat option" where
  "number_of (PBool b) = Some (FFin (if b then 1 else 0))"
| "number_of (PInt n) = Some (FFin (of_int n))"
| "number_of (PFloat x) = Some x"
| "number_of _ = None"

definition py_ne :: "pyval \<Rightarrow> pyval \<Rightarrow> bool" where
  "py_ne a b =
     (case (number_of a, number_of b) of
        (Some x, Some y) \<Rightarrow> x = FNaN \<or> x \<noteq> y
      | (None, None) \<Rightarrow> a \<noteq> b
      | _ \<Rightarrow> True)"

definition differs :: "pydict \<Rightarrow> pydict \<Rightarrow> string \<Rightarrow> bool" where
  "differs current_data new_data k =
     py_ne (normalize_value (dget current_data k)) (normalize_value (dget new_data k))"

text \<open>
  The \<open>try\<close> at the head of \<open>update_by_tools_name\<close>: the stored name and the tool when the
  lookup succeeds, the given name and no tool when it raises \<open>ValueError\<close>; any other
  exception leaves the method.
\<close>

definition find_tool :: "pylib \<Rightarrow> dataframe \<Rightarrow> string \<Rightarrow> error + pyval \<times> pydict option" where
  "find_tool L df tools_name =
     (case get_by_tools_name L df tools_name of
        Inr tool \<Rightarrow>
          Inr (py_or (dget tool ''Part Name'') (py_or (dget tool ''tools_name'') (PStr tools_name)),
               Some tool)
      | Inl e \<Rightarrow> if is_ValueError e then Inr (PStr tools_name, None) else Inl e)"

text \<open>
  The dictionaries \<open>current_data\<close> and \<open>new_data\<close> are built by the same expressions, from
  the tool and from the request; only the third name tried for the specification
  differs (\<open>detail_specification\<close> in the tool, \<open>description\<close> in the request).
\<close>

definition text_of :: "pylib \<Rightarrow> pyval \<Rightarrow> pyval" where
  "text_of L v = PStr (strip (py_str L v))"

definition tool_fields :: "pylib \<Rightarrow> pydict \<Rightarrow> string \<Rightarrow> pyval \<Rightarrow> error + pydict" where
  "tool_fields L d third name =
     and_then (tool_parse_number L
                 (py_or (dget d ''current_stock'') (py_or (dget d ''Total'') (PInt 0)))) (\<lambda>total.
     and_then (tool_parse_number L
                 (py_or (dget d ''stock_new'') (py_or (dget d ''NEW'') (PInt 0)))) (\<lambda>new.
     and_then (tool_parse_number L
                 (py_or (dget d ''stock_old'') (py_or (dget d ''OLD'') (PInt 0)))) (\<lambda>old.
     Inr [(''part_name'', name),
          (''detail_specification'',
             text_of L (py_or (dget d ''stock_detail'')
                       (py_or (dget d ''Detail Specification'')
                       (py_or (dget d third) (PStr []))))),
          (''picture'', text_of L (py_or (dget d ''photo'') (py_or (dget d ''Picture'') (PStr [])))),
          (''total'', PInt total),
          (''new'', PInt new),
          (''old'', PInt old),
          (''uom'', text_of L (py_or (dget d ''uom'') (py_or (dget d ''UOM'') (PStr ''Pcs'')))),
          (''remark'', text_of L (py_or (dget d ''remark'') (py_or (dget d ''Remark'') (PStr []))))])))"

text \<open>The chain of \<open>if\<close> and \<open>elif\<close> that sets \<open>has_changes\<close>.\<close>

definition tool_has_changes :: "pydict \<Rightarrow> pydict \<Rightarrow> bool" where
  "tool_has_changes current_data new_data =
     (if differs current_data new_data ''part_name'' then True
      else if differs current_data new_data ''detail_specification'' then True
      else if differs current_data new_data ''picture'' then True
      else if differs current_data new_data ''total'' then True
      else if differs current_data new_data ''new'' then True
      else if differs current_data new_data ''old'' then True
      else if differs current_data new_data ''uom'' then True
      else if differs current_data new_data ''remark'' then True
      else False)"

definition no_changes_response :: pydict where
  "no_changes_response =
     [(''ok'', PBool True), (''message'', PStr ''No changes detected''),
      (''no_changes'', PBool True)]"

definition tool_csv_data :: "pydict \<Rightarrow> pydict" where
  "tool_csv_data new_data =
     [(''part_name'', dget new_data ''part_name''),
      (''brand'', PStr []),
      (''detail_specification'', dget new_data ''detail_specification''),
      (''picture'', dget new_data ''picture''),
      (''total'', dget new_data ''total''),
      (''new'', dget new_data ''new''),
      (''old'', dget new_data ''old''),
      (''uom'', dget new_data ''uom''),
      (''remark'', dget new_data ''remark'')]"

text \<open>
  \<open>ToolService.update_by_tools_name\<close>, on the dataframe \<open>df\<close> that \<open>_get_dataframe()\<close>
  returns and the backing file \<open>f\<close>. The result is the response or the exception,
  together with the file as the call leaves it.
\<close>

definition update_by_tools_name ::
  "pylib \<Rightarrow> dataframe \<Rightarrow> backing_file \<Rightarrow> string \<Rightarrow> pydict \<Rightarrow> (error + pydict) \<times> backing_file" where
  "update_by_tools_name L df f tools_name updated_data =
     (case find_tool L df tools_name of
        Inl e \<Rightarrow> (Inl e, f)
      | Inr (part_name, tool) \<Rightarrow>
          (case (case tool of
                   Some t \<Rightarrow> if t \<noteq> [] then tool_fields L t ''detail_specification'' part_name
                             else Inr []
                 | None \<Rightarrow> Inr []) of
             Inl e \<Rightarrow> (Inl e, f)
           | Inr current_data \<Rightarrow>
               (case tool_fields L updated_data ''description''
                       (py_or (dget updated_data ''tools_name'')
                              (dget_default updated_data ''Part Name'' part_name)) of
                  Inl e \<Rightarrow> (Inl e, f)
                | Inr new_data \<Rightarrow>
                    if (case tool of Some t \<Rightarrow> t \<noteq> [] | None \<Rightarrow> False)
                       \<and> \<not> tool_has_changes current_data new_data
                    then (Inr no_changes_response, f)
                    else base_update L tool_save_dataframe (tool_key_column df) df f
                           (py_str L part_name) (tool_csv_data new_data))))"

text \<open>
  \<open>ToolService.delete_by_tools_name\<close>: the lookup is outside any \<open>try\<close>, so what it raises
  leaves the method.
\<close>

definition delete_by_tools_name ::
  "pylib \<Rightarrow> dataframe \<Rightarrow> backing_file \<Rightarrow> string \<Rightarrow> (error + pydict) \<times> backing_file" where
  "delete_by_tools_name L df f tools_name =
     (case get_by_tools_name L df tools_name of
        Inl e \<Rightarrow> (Inl e, f)
      | Inr tool \<Rightarrow>
          base_delete L tool_save_dataframe (tool_key_column df) df f
            (py_str L (py_or (dget tool ''Part Name'')
                             (py_or (dget tool ''tools_name'') (PStr tools_name)))))"

text \<open>
  \<open>ToolService.bulk_upsert\<close>. An empty list is refused. The loop skips a record whose
  name, read as \<open>tools_name\<close>, \<open>Part Name\<close> or \<open>TOOLS NAME\<close>, is missing or false, and turns
  every other record into the CSV fields; the resulting list goes to the inherited
  \<open>bulk_upsert\<close>.
\<close>

definition bulk_name :: "pydict \<Rightarrow> pyval" where
  "bulk_name tool_data =
     py_or (dget tool_data ''tools_name'')
           (py_or (dget tool_data ''Part Name'') (dget_default tool_data ''TOOLS NAME'' (PStr [])))"

definition bulk_csv_data :: "pylib \<Rightarrow> pydict \<Rightarrow> error + pydict" where
  "bulk_csv_data L tool_data =
     and_then (tool_parse_number L
                 (py_or (dget tool_data ''current_stock'')
                        (dget_default tool_data ''Total'' (PInt 0)))) (\<lambda>total.
     and_then (tool_parse_number L
                 (py_or (dget tool_data ''stock_new'')
                        (dget_default tool_data ''NEW'' (PInt 0)))) (\<lambda>new.
     and_then (tool_parse_number L
                 (py_or (dget tool_data ''stock_old'')
                        (dget_default tool_data ''OLD'' (PInt 0)))) (\<lambda>old.
     Inr [(''part_name'', bulk_name tool_data),
          (''brand'', PStr []),
          (''detail_specification'',
             py_or (dget tool_data ''stock_detail'')
                   (py_or (dget tool_data ''Detail Specification'')
                          (dget_default tool_data ''description'' (PStr [])))),
          (''picture'', py_or (dget tool_data ''photo'') (dget_default tool_data ''Picture'' (PStr []))),
          (''total'', PInt total),
          (''new'', PInt new),
          (''old'', PInt old),
          (''uom'', py_or (dget tool_data ''uom'') (dget_default tool_data ''UOM'' (PStr ''Pcs''))),
          (''remark'', py_or (dget tool_data ''remark'')
                             (dget_default tool_data ''Remark'' (PStr [])))])))"

fun normalized_tools :: "pylib \<Rightarrow> pydict list \<Rightarrow> error + pydict list" where
  "normalized_tools L [] = Inr []"
| "normalized_tools L (tool_data # rest) =
     (if \<not> truthy (bulk_name tool_data) then normalized_tools L rest
      else and_then (bulk_csv_data L tool_data) (\<lambda>csv_data.
           and_then (normalized_tools L rest) (\<lambda>others. Inr (csv_data # others))))"

definition bulk_upsert ::
  "pylib \<Rightarrow> dataframe \<Rightarrow> backing_file \<Rightarrow> pydict list \<Rightarrow> (error + pydict) \<times> backing_file" where
  "bulk_upsert L df f tools_data =
     (if tools_data = [] then (Inl NoDataProvided, f)
      else case normalized_tools L tools_data of
             Inl e \<Rightarrow> (Inl e, f)
           | Inr records \<Rightarrow>
               base_bulk_upsert L tool_save_dataframe (tool_key_column df) ''part_name'' df f
                 records)"

section \<open>Updating and deleting baby parts\<close>

definition find_baby_part :: "pylib \<Rightarrow> dataframe \<Rightarrow> string \<Rightarrow> error + pyval \<times> pydict option" where
  "find_baby_part L df baby_part_name =
     (case get_by_baby_part_name L df baby_part_name of
        Inr baby_part \<Rightarrow>
          Inr (py_or (dget baby_part ''Baby Parts'')
                     (py_or (dget baby_part ''baby_parts'') (PStr baby_part_name)),
               Some baby_part)
      | Inl e \<Rightarrow> if is_ValueError e then Inr (PStr baby_part_name, None) else Inl e)"

definition baby_has_changes :: "pydict \<Rightarrow> pydict \<Rightarrow> bool" where
  "baby_has_changes current_data new_data =
     (if differs current_data new_data ''baby_parts'' then True
      else if differs current_data new_data ''qty'' then True
      else False)"

text \<open>\<open>BabyPartService.update_by_baby_part_name\<close>.\<close>

definition update_by_baby_part_name ::
  "pylib \<Rightarrow> dataframe \<Rightarrow> backing_file \<Rightarrow> string \<Rightarrow> pydict \<Rightarrow> (error + pydict) \<times> backing_file" where
  "update_by_baby_part_name L df f baby_part_name updated_data =
     (case find_baby_part L df baby_part_name of
        Inl e \<Rightarrow> (Inl e, f)
      | Inr (part_name, baby_part) \<Rightarrow>
          (case (case baby_part of
                   Some b \<Rightarrow>
                     if b \<noteq> [] then
                       and_then (baby_parse_number L
                                   (py_or (dget b ''qty'') (py_or (dget b ''Qty'') (PInt 0))))
                         (\<lambda>qty. Inr [(''baby_parts'', part_name), (''qty'', PInt qty)])
                     else Inr []
                 | None \<Rightarrow> Inr []) of
             Inl e \<Rightarrow> (Inl e, f)
           | Inr current_data \<Rightarrow>
               (case and_then (baby_parse_number L
                                 (py_or (dget updated_data ''qty'')
                                 (py_or (dget updated_data ''Qty'')
                                 (py_or (dget updated_data ''quantity'') (PInt 0)))))
                       (\<lambda>qty. Inr [(''baby_parts'',
                                       py_or (dget updated_data ''baby_parts'')
                                             (dget_default updated_data ''Baby Parts'' part_name)),
                                    (''qty'', PInt qty)]) of
                  Inl e \<Rightarrow> (Inl e, f)
                | Inr new_data \<Rightarrow>
                    if (case baby_part of Some b \<Rightarrow> b \<noteq> [] | None \<Rightarrow> False)
                       \<and> \<not> baby_has_changes current_data new_data
                    then (Inr no_changes_response, f)
                    else base_update L baby_save_dataframe (baby_key_column df) df f
                           (py_str L part_name)
                           [(''baby_parts'', dget new_data ''baby_parts''),
                            (''qty'', dget new_data ''qty'')])))"

text \<open>
  \<open>BabyPartService.delete_by_baby_part_name\<close>: here the lookup is inside a \<open>try\<close>, and on
  \<open>ValueError\<close> the given name goes to the inherited \<open>delete\<close>.
\<close>

definition delete_by_baby_part_name ::
  "pylib \<Rightarrow> dataframe \<Rightarrow> backing_file \<Rightarrow> string \<Rightarrow> (error + pydict) \<times> backing_file" where
  "delete_by_baby_part_name L df f baby_part_name =
     (case find_baby_part L df baby_part_name of
        Inl e \<Rightarrow> (Inl e, f)
      | Inr (part_name, baby_part) \<Rightarrow>
          base_delete L baby_save_dataframe (baby_key_column df) df f (py_str L part_name))"

section \<open>A library for closed examples\<close>

text \<open>
  The examples below are ASCII text, which NFKC normalization leaves as it is. They
  contain no finite float; the text given here to a finite float is that of its
  integral part followed by \<open>.0\<close>, which is \<open>repr\<close> for the integral floats of magnitude
  below \<open>10 ^ 16\<close>.
\<close>

definition ascii_lib :: pylib where
  "ascii_lib = \<lparr>nfkc = (\<lambda>s. s), float_repr = (\<lambda>q. str_int (toward_zero q) @ ''.0'')\<rparr>"

text \<open>
  A tool sheet with two rows whose names differ in case and in trailing white space, a
  row without a name and a row whose name is white space; a baby part sheet with one
  named and one unnamed row; and a backing file that exists, may be written, is not
  held by anyone and accepts the write.
\<close>

definition tool_sheet :: dataframe where
  "tool_sheet =
     \<lparr>columns = [''part_name'', ''total''],
      rows = [[(''part_name'', PStr ''Widget-A''), (''total'', PInt 5)],
              [(''part_name'', PStr ''widget-a ''), (''total'', PStr ''7'')],
              [(''part_name'', PFloat FNaN), (''total'', PInt 1)],
              [(''part_name'', PStr ''  ''), (''total'', PInt 2)]]\<rparr>"

definition baby_sheet :: dataframe where
  "baby_sheet =
     \<lparr>columns = [''baby_parts'', ''qty''],
      rows = [[(''baby_parts'', PStr ''Bolt''), (''qty'', PInt 3)],
              [(''baby_parts'', PStr []), (''qty'', PInt 1)]]\<rparr>"

definition free_file :: "string \<Rightarrow> dataframe \<Rightarrow> backing_file" where
  "free_file path t =
     \<lparr>file_path = path, file_exists = True, write_access = True, probe = Opened,
      to_csv = Written, table = t\<rparr>"

text \<open>
  The same file when it is read-only, and when another process holds it so that
  opening it for update is refused with \<open>errno\<close> 13.
\<close>

definition stock_table :: dataframe where
  "stock_table =
     \<lparr>columns = [''Part Name'', ''Total''],
      rows = [[(''Part Name'', PStr ''Widget-A''), (''Total'', PInt 5)]]\<rparr>"

definition read_only_file :: backing_file where
  "read_only_file = (free_file ''data/stock_detail.csv'' stock_table)\<lparr>write_access := False\<rparr>"

definition held_file :: backing_file where
  "held_file =
     (free_file ''data/stock_detail.csv'' stock_table)
       \<lparr>probe := OpenFailed (Some 13) ''[Errno 13] Permission denied''\<rparr>"

section \<open>Numeric parsing\<close>

lemma power_sq_eq: "power_sq b n = b ^ n"
proof (induction b n rule: power_sq.induct)
  case (1 b n)
  show ?case
  proof (cases "n = 0")
    case True
    then show ?thesis by simp
  next
    case False
    have sq: "(b * b) ^ (n div 2) = b ^ (2 * (n div 2))"
      by (simp add: power_mult power2_eq_square)
    show ?thesis
    proof (cases "even n")
      case True
      then have "power_sq b n = (b * b) ^ (n div 2)"
        using False 1(1) by (subst power_sq.simps) simp
      also have "\<dots> = b ^ n" using True sq by simp
      finally show ?thesis .
    next
      case odd: False
      then have "power_sq b n = b * (b * b) ^ (n div 2)"
        using False 1(2) by (subst power_sq.simps) simp
      also have "\<dots> = b ^ Suc (2 * (n div 2))" using sq by simp
      also have "Suc (2 * (n div 2)) = n" using odd by presburger
      finally show ?thesis .
    qed
  qed
qed

lemma parse_number_missing:
  "isna v \<or> v = PStr [] \<Longrightarrow> tool_parse_number L v = Inr 0 \<and> baby_parse_number L v = Inr 0"
  by (auto simp: tool_parse_number_def baby_parse_number_def)

lemma parse_number_unparsable:
  "py_float (strip (py_str L v)) = None \<Longrightarrow>
     tool_parse_number L v = Inr 0 \<and> baby_parse_number L v = Inr 0"
  by (simp add: tool_parse_number_def baby_parse_number_def int_float_def)

lemma int_float_examples:
  "int_float ''5'' = Inr 5"
  "int_float ''5.0'' = Inr 5"
  "int_float ''abc'' = Inl ConversionError"
  "int_float ''inf'' = Inl OverflowError"
  "int_float ''0'' = Inr 0"
  by code_simp+

lemma strip_examples:
  "strip ''5'' = ''5''" "strip ''5.0'' = ''5.0''" "strip ''abc'' = ''abc''"
  "strip ''inf'' = ''inf''" "strip ''0'' = ''0''"
  by code_simp+

text \<open>
  C7. \<open>_parse_number\<close> is claimed to be total and never to raise. Both versions return
  5, 5, 0, 0 and 0 on \<open>"5"\<close>, \<open>"5.0"\<close>, \<open>""\<close>, \<open>"abc"\<close> and \<open>None\<close>, and 0 on NaN, as claimed.
  On the text \<open>inf\<close>, however, \<open>float\<close> succeeds and \<open>int\<close> raises \<open>OverflowError\<close>, which
  the handler \<open>except (ValueError, TypeError)\<close> does not catch: the call raises instead
  of returning 0. The same happens on a cell that holds an infinity.
\<close>

theorem parse_number_raises_on_infinity:
  "tool_parse_number L (PStr ''5'') = Inr 5 \<and>
   tool_parse_number L (PStr ''5.0'') = Inr 5 \<and>
   tool_parse_number L (PStr []) = Inr 0 \<and>
   tool_parse_number L (PStr ''abc'') = Inr 0 \<and>
   tool_parse_number L PNone = Inr 0 \<and>
   tool_parse_number L (PFloat FNaN) = Inr 0 \<and>
   baby_parse_number L (PStr ''5'') = Inr 5 \<and>
   baby_parse_number L (PStr ''5.0'') = Inr 5 \<and>
   baby_parse_number L (PStr []) = Inr 0 \<and>
   baby_parse_number L (PStr ''abc'') = Inr 0 \<and>
   baby_parse_number L PNone = Inr 0 \<and>
   baby_parse_number L (PFloat FNaN) = Inr 0 \<and>
   tool_parse_number L (PStr ''inf'') = Inl OverflowError \<and>
   baby_parse_number L (PStr ''inf'') = Inl OverflowError \<and>
   tool_parse_number L (PFloat (FInf False)) = Inl OverflowError \<and>
   baby_parse_number L (PFloat (FInf False)) = Inl OverflowError"
  by (simp add: tool_parse_number_def baby_parse_number_def strip_examples int_float_examples)

section \<open>The empty bulk payload\<close>

text \<open>
  C10. \<open>bulk_upsert\<close> with an empty list raises \<open>ValueError("No data provided")\<close>; it does
  not succeed with zero counts, and the file is left as it was.
\<close>

theorem bulk_upsert_empty_rejected:
  "bulk_upsert L df f [] = (Inl NoDataProvided, f)"
  by (simp add: bulk_upsert_def)

section \<open>The written columns\<close>

lemma columns_select [simp]: "columns (select_columns cols df) = cols"
  by (simp add: select_columns_def)

lemma columns_tool_frame_to_save:
  "columns (tool_frame_to_save df) =
     final_columns tool_original_order (rename_columns tool_column_mapping df)"
  by (simp add: tool_frame_to_save_def Let_def)

lemma set_final_columns: "set (final_columns original_order df) = set (columns df)"
  by (auto simp: final_columns_def Let_def)

lemma written_columns_are_renamed:
  "set (columns (tool_frame_to_save df)) =
     (\<lambda>c. case map_of tool_column_mapping c of None \<Rightarrow> c | Some c' \<Rightarrow> c') ` set (columns df)"
  by (simp add: columns_tool_frame_to_save set_final_columns rename_columns_def)

lemma hammer_renamed:
  "rename_columns tool_column_mapping
     \<lparr>columns = [''part_name'', ''total''],
      rows = [[(''part_name'', PStr ''Hammer''), (''total'', PInt 5)]]\<rparr>
   = \<lparr>columns = [''Part Name'', ''Total''],
      rows = [[(''Part Name'', PStr ''Hammer''), (''Total'', PInt 5)]]\<rparr>"
  by (simp add: rename_columns_def tool_column_mapping_def)

lemma hammer_final_columns:
  "final_columns tool_original_order
     \<lparr>columns = [''Part Name'', ''Total''],
      rows = [[(''Part Name'', PStr ''Hammer''), (''Total'', PInt 5)]]\<rparr>
   = [''Part Name'', ''Total'']"
  by (simp add: final_columns_def tool_original_order_def)

lemma hammer_frame_to_save:
  "tool_frame_to_save
     \<lparr>columns = [''part_name'', ''total''],
      rows = [[(''part_name'', PStr ''Hammer''), (''total'', PInt 5)]]\<rparr>
   = \<lparr>columns = [''Part Name'', ''Total''],
      rows = [[(''Part Name'', PStr ''Hammer''), (''Total'', PInt 5)]]\<rparr>"
  unfolding tool_frame_to_save_def hammer_renamed Let_def hammer_final_columns
  by (simp add: select_columns_def record_of_def cell_def assign_column_def)

text \<open>
  C6. The save path is claimed to add the column \<open>Brand\<close> when it is absent, so that
  the written file always has it. The columns that are written are those of
  \<open>final_columns\<close>, computed before \<open>Brand\<close> is assigned, so the selection
  \<open>df_to_save[final_columns]\<close> drops the column just added. A dataframe with the columns
  \<open>part_name\<close> and \<open>total\<close> is written with the columns \<open>Part Name\<close> and \<open>Total\<close> only, to a
  file that accepts the write.
\<close>

theorem brand_column_not_written:
  "tool_save_dataframe
     \<lparr>file_path = ''data/stock_detail.csv'', file_exists = True, write_access = True,
      probe = Opened, to_csv = Written, table = \<lparr>columns = [], rows = []\<rparr>\<rparr>
     \<lparr>columns = [''part_name'', ''total''],
      rows = [[(''part_name'', PStr ''Hammer''), (''total'', PInt 5)]]\<rparr>
   = (Inr (),
      \<lparr>file_path = ''data/stock_detail.csv'', file_exists = True, write_access = True,
       probe = Opened, to_csv = Written,
       table = \<lparr>columns = [''Part Name'', ''Total''],
                rows = [[(''Part Name'', PStr ''Hammer''), (''Total'', PInt 5)]]\<rparr>\<rparr>)"
  unfolding tool_save_dataframe_def hammer_frame_to_save
  by (simp add: save_frame_def pre_write_check_def write_csv_def)

section \<open>Stripped text and records\<close>

lemma strip_strip [simp]: "strip (strip s) = strip s"
proof -
  define u where "u = dropWhile isspace s"
  define w where "w = dropWhile isspace (rev u)"
  have t: "strip s = rev w" by (simp add: strip_def u_def w_def)
  have trailing: "dropWhile isspace w = w"
    by (simp add: w_def)
  have "rev u = takeWhile isspace (rev u) @ w"
    by (simp add: w_def)
  then have "u = rev w @ rev (takeWhile isspace (rev u))"
    by (metis rev_append rev_rev_ident)
  then obtain x where ux: "u = rev w @ x" ..
  have front: "dropWhile isspace (rev w) = rev w"
  proof (cases "rev w = []")
    case True
    then show ?thesis by simp
  next
    case False
    then have "u \<noteq> []" and "hd (rev w) = hd u" using ux by auto
    moreover have "u \<noteq> [] \<Longrightarrow> \<not> isspace (hd u)"
      unfolding u_def by (rule hd_dropWhile)
    ultimately show ?thesis using False by (simp add: dropWhile_eq_self_iff)
  qed
  show ?thesis
    unfolding t by (simp add: strip_def front trailing)
qed

lemma map_of_record_of:
  "map_of (record_of cols r) c = (if c \<in> set cols then Some (cell r c) else None)"
  by (induction cols) (auto simp: record_of_def)

lemma dget_default_record_of:
  "dget_default (record_of cols r) c d = (if c \<in> set cols then cell r c else d)"
  by (simp add: dget_default_def map_of_record_of)

lemma dget_record_of:
  "dget (record_of cols r) c = (if c \<in> set cols then cell r c else PNone)"
  by (simp add: dget_def map_of_record_of)

lemma and_then_Inr:
  "and_then r f = Inr y \<longleftrightarrow> (\<exists>x. r = Inr x \<and> f x = Inr y)"
  by (cases r) (simp_all add: and_then_def)

lemma and_then_Inl:
  "and_then r f = Inl e \<longleftrightarrow> r = Inl e \<or> (\<exists>x. r = Inr x \<and> f x = Inl e)"
  by (cases r) (simp_all add: and_then_def)

section \<open>Listed records\<close>

lemma tool_view_names:
  assumes "tool_view L tool name = Inr v"
  shows "dget v ''id'' = PStr name \<and> dget v ''tools_name'' = PStr name \<and>
         dget v ''Part Name'' = PStr name"
proof -
  from assms obtain total new old where
    "v = [(''id'', PStr name),
          (''tools_name'', PStr name),
          (''current_stock'', PInt total),
          (''stock_new'', PInt new),
          (''stock_old'', PInt old),
          (''stock_detail'', str_field L tool ''detail_specification'' (PStr [])),
          (''photo'', str_field L tool ''picture'' (PStr [])),
          (''uom'', str_field L tool ''uom'' (PStr ''Pcs'')),
          (''remark'', str_field L tool ''remark'' (PStr [])),
          (''description'', str_field L tool ''detail_specification'' (PStr [])),
          (''Part Name'', PStr name),
          (''Detail Specification'', str_field L tool ''detail_specification'' (PStr [])),
          (''Picture'', str_field L tool ''picture'' (PStr [])),
          (''Total'', PInt total),
          (''NEW'', PInt new),
          (''OLD'', PInt old),
          (''UOM'', str_field L tool ''uom'' (PStr ''Pcs'')),
          (''Remark'', str_field L tool ''remark'' (PStr []))]"
    unfolding tool_view_def and_then_Inr by auto
  then show ?thesis by (simp add: dget_def)
qed

lemma tool_views_names:
  "tool_views L col tools = Inr vs \<Longrightarrow> v \<in> set vs \<Longrightarrow>
     \<exists>tool \<in> set tools. \<exists>name. name = strip (py_str L (dget_default tool col (PStr []))) \<and>
        name \<noteq> [] \<and> dget v ''id'' = PStr name \<and> dget v ''tools_name'' = PStr name \<and>
        dget v ''Part Name'' = PStr name"
proof (induction tools arbitrary: vs)
  case Nil
  then show ?case by simp
next
  case (Cons tool tools)
  let ?name = "strip (py_str L (dget_default tool col (PStr [])))"
  show ?case
  proof (cases "?name = []")
    case True
    then have "tool_views L col tools = Inr vs" using Cons.prems(1) by (simp add: Let_def)
    then show ?thesis using Cons.IH Cons.prems(2) by auto
  next
    case False
    then obtain w ws where w: "tool_view L tool ?name = Inr w"
      and ws: "tool_views L col tools = Inr ws" and vs: "vs = w # ws"
      using Cons.prems(1) by (auto simp: Let_def and_then_Inr)
    show ?thesis
    proof (cases "v = w")
      case True
      then show ?thesis using tool_view_names[OF w] False by auto
    next
      case other: False
      then have "v \<in> set ws" using Cons.prems(2) vs by simp
      then show ?thesis using Cons.IH[OF ws] by auto
    qed
  qed
qed

lemma baby_views_names:
  "baby_views L col qcol recs = Inr vs \<Longrightarrow> v \<in> set vs \<Longrightarrow>
     \<exists>row \<in> set recs. \<exists>name. name = strip (py_str L (dget_default row col (PStr []))) \<and>
        name \<noteq> [] \<and> dget v ''id'' = PStr name \<and> dget v ''baby_parts'' = PStr name \<and>
        dget v ''Baby Parts'' = PStr name"
proof (induction recs arbitrary: vs)
  case Nil
  then show ?case by simp
next
  case (Cons row recs)
  let ?name = "strip (py_str L (dget_default row col (PStr [])))"
  show ?case
  proof (cases "?name = []")
    case True
    then have "baby_views L col qcol recs = Inr vs" using Cons.prems(1) by (simp add: Let_def)
    then show ?thesis using Cons.IH Cons.prems(2) by auto
  next
    case False
    then obtain qty ws where ws: "baby_views L col qcol recs = Inr ws"
      and vs: "vs = baby_view ?name qty # ws"
      using Cons.prems(1) by (auto simp: Let_def and_then_Inr)
    show ?thesis
    proof (cases "v = baby_view ?name qty")
      case True
      then show ?thesis using False by (auto simp: baby_view_def dget_def)
    next
      case other: False
      then have "v \<in> set ws" using Cons.prems(2) vs by simp
      then show ?thesis using Cons.IH[OF ws] by auto
    qed
  qed
qed

lemma records_of_kept_rows:
  "tool \<in> set (to_dict_records (drop_blank L col df)) \<Longrightarrow>
     \<exists>r \<in> set (rows df). \<not> blank_key L col r \<and> tool = record_of (columns df) r"
  by (auto simp: to_dict_records_def drop_blank_def)

lemma tool_key_column_in:
  "tool_key_column df = Some col \<Longrightarrow> col \<in> set (columns df)"
proof -
  assume a: "tool_key_column df = Some col"
  show ?thesis
  proof (cases "''part_name'' \<in> set (columns df)")
    case True
    then show ?thesis using a by (simp add: tool_key_column_def)
  next
    case False
    then obtain cs where
      "filter (\<lambda>c. py_in ''part'' (lower c) \<and> py_in ''name'' (lower c)) (columns df) = col # cs"
      using a by (auto simp: tool_key_column_def split: list.splits)
    then have "col \<in> set (filter (\<lambda>c. py_in ''part'' (lower c) \<and> py_in ''name'' (lower c))
                               (columns df))"
      by simp
    then show ?thesis by simp
  qed
qed

lemma baby_key_column_in:
  "baby_key_column df = Some col \<Longrightarrow> col \<in> set (columns df)"
proof -
  assume a: "baby_key_column df = Some col"
  show ?thesis
  proof (cases "''baby_parts'' \<in> set (columns df)")
    case True
    then show ?thesis using a by (simp add: baby_key_column_def)
  next
    case False
    then obtain cs where
      "filter (\<lambda>c. py_in ''baby'' (lower c) \<and> py_in ''part'' (lower c)) (columns df) = col # cs"
      using a by (auto simp: baby_key_column_def split: list.splits)
    then have "col \<in> set (filter (\<lambda>c. py_in ''baby'' (lower c) \<and> py_in ''part'' (lower c))
                               (columns df))"
      by simp
    then show ?thesis by simp
  qed
qed

lemma kept_key_not_empty:
  "\<not> blank_key L col r \<Longrightarrow> strip (py_str L (cell r col)) \<noteq> []"
  by (simp add: blank_key_def)

text \<open>
  C9. Every record that \<open>get_all\<close> returns, in either service, comes from a row of the
  dataframe whose key cell is neither missing (\<open>None\<close>, NaN) nor empty nor white space
  only; its \<open>id\<close> and its name fields are the stripped text of that cell, and that text
  is not empty after trimming.
\<close>

theorem listed_keys_not_blank:
  "(tool_get_all L df = Inr tools \<longrightarrow>
      (\<forall>t \<in> set tools. \<exists>col r name.
          tool_key_column df = Some col \<and> r \<in> set (rows df) \<and> \<not> blank_key L col r \<and>
          name = strip (py_str L (cell r col)) \<and> strip name \<noteq> [] \<and>
          dget t ''id'' = PStr name \<and> dget t ''tools_name'' = PStr name \<and>
          dget t ''Part Name'' = PStr name)) \<and>
   (baby_get_all L df = Inr parts \<longrightarrow>
      (\<forall>p \<in> set parts. \<exists>r name.
          r \<in> set (rows df) \<and> \<not> blank_key L (baby_list_column df) r \<and>
          name = strip (py_str L (cell r (baby_list_column df))) \<and> strip name \<noteq> [] \<and>
          dget p ''id'' = PStr name \<and> dget p ''baby_parts'' = PStr name \<and>
          dget p ''Baby Parts'' = PStr name))"
proof (intro conjI impI ballI)
  fix t
  assume all: "tool_get_all L df = Inr tools" and t: "t \<in> set tools"
  show "\<exists>col r name.
          tool_key_column df = Some col \<and> r \<in> set (rows df) \<and> \<not> blank_key L col r \<and>
          name = strip (py_str L (cell r col)) \<and> strip name \<noteq> [] \<and>
          dget t ''id'' = PStr name \<and> dget t ''tools_name'' = PStr name \<and>
          dget t ''Part Name'' = PStr name"
  proof (cases "tool_key_column df")
    case None
    then show ?thesis using all t by (simp add: tool_get_all_def)
  next
    case (Some col)
    then have views: "tool_views L col (to_dict_records (drop_blank L col df)) = Inr tools"
      using all by (simp add: tool_get_all_def)
    from tool_views_names[OF views t] obtain tool where
      tool: "tool \<in> set (to_dict_records (drop_blank L col df))" and
      names: "dget t ''id'' = PStr (strip (py_str L (dget_default tool col (PStr []))))"
             "dget t ''tools_name'' = PStr (strip (py_str L (dget_default tool col (PStr []))))"
             "dget t ''Part Name'' = PStr (strip (py_str L (dget_default tool col (PStr []))))"
      by auto
    from records_of_kept_rows[OF tool] obtain r where
      r: "r \<in> set (rows df)" "\<not> blank_key L col r" "tool = record_of (columns df) r"
      by auto
    have "dget_default tool col (PStr []) = cell r col"
      using r(3) tool_key_column_in[OF Some] by (simp add: dget_default_record_of)
    then show ?thesis
      using Some r(1,2) names kept_key_not_empty[OF r(2)] by auto
  qed
next
  fix p
  assume all: "baby_get_all L df = Inr parts" and p: "p \<in> set parts"
  let ?col = "baby_list_column df"
  have col: "?col \<in> set (columns df)"
    using all by (auto simp: baby_get_all_def Let_def split: if_splits)
  then have views:
    "baby_views L ?col (qty_column df) (to_dict_records (drop_blank L ?col df)) = Inr parts"
    using all by (simp add: baby_get_all_def Let_def)
  from baby_views_names[OF views p] obtain row where
    row: "row \<in> set (to_dict_records (drop_blank L ?col df))" and
    names: "dget p ''id'' = PStr (strip (py_str L (dget_default row ?col (PStr []))))"
           "dget p ''baby_parts'' = PStr (strip (py_str L (dget_default row ?col (PStr []))))"
           "dget p ''Baby Parts'' = PStr (strip (py_str L (dget_default row ?col (PStr []))))"
    by auto
  from records_of_kept_rows[OF row] obtain r where
    r: "r \<in> set (rows df)" "\<not> blank_key L ?col r" "row = record_of (columns df) r"
    by auto
  have "dget_default row ?col (PStr []) = cell r ?col"
    using r(3) col by (simp add: dget_default_record_of)
  then show "\<exists>r name.
          r \<in> set (rows df) \<and> \<not> blank_key L ?col r \<and>
          name = strip (py_str L (cell r ?col)) \<and> strip name \<noteq> [] \<and>
          dget p ''id'' = PStr name \<and> dget p ''baby_parts'' = PStr name \<and>
          dget p ''Baby Parts'' = PStr name"
    using r(1,2) names kept_key_not_empty[OF r(2)] by auto
qed

lemma tool_sheet_listed:
  "tool_get_all ascii_lib tool_sheet =
     Inr [[(''id'', PStr ''Widget-A''), (''tools_name'', PStr ''Widget-A''),
           (''current_stock'', PInt 5), (''stock_new'', PInt 0),
           (''stock_old'', PInt 0), (''stock_detail'', PStr []),
           (''photo'', PStr []), (''uom'', PStr ''Pcs''), (''remark'', PStr []),
           (''description'', PStr []), (''Part Name'', PStr ''Widget-A''),
           (''Detail Specification'', PStr []), (''Picture'', PStr []),
           (''Total'', PInt 5), (''NEW'', PInt 0), (''OLD'', PInt 0),
           (''UOM'', PStr ''Pcs''), (''Remark'', PStr [])],
          [(''id'', PStr ''widget-a''), (''tools_name'', PStr ''widget-a''),
           (''current_stock'', PInt 7), (''stock_new'', PInt 0),
           (''stock_old'', PInt 0), (''stock_detail'', PStr []),
           (''photo'', PStr []), (''uom'', PStr ''Pcs''), (''remark'', PStr []),
           (''description'', PStr []), (''Part Name'', PStr ''widget-a''),
           (''Detail Specification'', PStr []), (''Picture'', PStr []),
           (''Total'', PInt 7), (''NEW'', PInt 0), (''OLD'', PInt 0),
           (''UOM'', PStr ''Pcs''), (''Remark'', PStr [])]]"
  by code_simp

lemma baby_sheet_listed:
  "baby_get_all ascii_lib baby_sheet = Inr [baby_view ''Bolt'' 3]"
  by code_simp

theorem listed_keys_not_blank_witness:
  "\<exists>t ts p ps name name'.
      tool_get_all ascii_lib tool_sheet = Inr (t # ts) \<and>
      baby_get_all ascii_lib baby_sheet = Inr (p # ps) \<and>
      dget t ''id'' = PStr name \<and> strip name \<noteq> [] \<and>
      dget p ''id'' = PStr name' \<and> strip name' \<noteq> []"
proof -
  obtain t ts where tools: "tool_get_all ascii_lib tool_sheet = Inr (t # ts)"
    using tool_sheet_listed by blast
  obtain p ps where parts: "baby_get_all ascii_lib baby_sheet = Inr (p # ps)"
    using baby_sheet_listed by blast
  have t: "t \<in> set (t # ts)" and p: "p \<in> set (p # ps)" by simp_all
  from listed_keys_not_blank[THEN conjunct1, rule_format, OF tools t]
  obtain name where name: "dget t ''id'' = PStr name" "strip name \<noteq> []" by blast
  from listed_keys_not_blank[THEN conjunct2, rule_format, OF parts p]
  obtain name' where name': "dget p ''id'' = PStr name'" "strip name' \<noteq> []" by blast
  show ?thesis using tools parts name name' by blast
qed

section \<open>Key resolution\<close>

lemma cell_stored [simp]: "cell ((name, v) # r) name = v"
  by (simp add: cell_def)

lemma rows_with_normalized:
  "rows (with_normalized L name col df) =
     map (\<lambda>r. (name, PStr (normalized_key L col r)) # r) (rows df)"
  by (simp add: with_normalized_def assign_column_def)

lemma columns_with_normalized_drop_blank:
  "columns (with_normalized L name col (drop_blank L col' df)) =
     columns (with_normalized L name col df)"
  by (simp add: with_normalized_def assign_column_def drop_blank_def)

lemma rows_stored_exact:
  "rows (stored_pass name (\<lambda>s. s) (normalized_query L q) (with_normalized L name col df)) =
     map (\<lambda>r. (name, PStr (normalized_key L col r)) # r) (exact_pass L col q (rows df))"
  by (simp add: stored_pass_def rows_with_normalized exact_pass_def filter_map comp_def)

lemma rows_stored_caseless:
  "rows (stored_pass name lower (normalized_query L q) (with_normalized L name col df)) =
     map (\<lambda>r. (name, PStr (normalized_key L col r)) # r) (caseless_pass L col q (rows df))"
  by (simp add: stored_pass_def rows_with_normalized caseless_pass_def filter_map comp_def)

lemma columns_stored_pass [simp]: "columns (stored_pass name f q df) = columns df"
  by (simp add: stored_pass_def)

lemma rows_stored_matching:
  "rows (stored_matching L name q (with_normalized L name col df)) =
     map (\<lambda>r. (name, PStr (normalized_key L col r)) # r) (matching L col q (rows df))"
  by (simp add: stored_matching_def matching_def rows_stored_exact rows_stored_caseless)

lemma columns_stored_matching [simp]: "columns (stored_matching L name q df) = columns df"
  by (simp add: stored_matching_def)

lemma records_of_matching:
  "to_dict_records
     (stored_matching L name q (with_normalized L name col (drop_blank L col df))) =
   map (normalized_record L name col df) (matching L col q (rows (drop_blank L col df)))"
  by (simp add: to_dict_records_def rows_stored_matching normalized_record_def comp_def
        columns_with_normalized_drop_blank)

lemma get_by_tools_name_matching:
  "tool_key_column df = Some col \<Longrightarrow>
     get_by_tools_name L df q =
       (case matching L col q (rows (drop_blank L col df)) of
          [] \<Rightarrow> Inl (NotFound (strip q))
        | r # rs \<Rightarrow>
            tool_of_record L col (normalized_record L ''_normalized_part_name'' col df r))"
  by (simp add: get_by_tools_name_def Let_def records_of_matching split: list.splits)

lemma qty_column_columns: "columns a = columns b \<Longrightarrow> qty_column a = qty_column b"
  by (simp add: qty_column_def cong: list.case_cong)

lemma baby_of_record_columns:
  "columns a = columns b \<Longrightarrow> baby_of_record L a col r = baby_of_record L b col r"
  by (simp add: baby_of_record_def qty_column_columns[of a b])

lemma get_by_baby_part_name_matching:
  "baby_key_column df = Some col \<Longrightarrow>
     get_by_baby_part_name L df q =
       (case matching L col q (rows (drop_blank L col df)) of
          [] \<Rightarrow> Inl (NotFound (strip q))
        | r # rs \<Rightarrow>
            baby_of_record L (with_normalized L ''_normalized_baby_part_name'' col df) col
              (normalized_record L ''_normalized_baby_part_name'' col df r))"
  by (simp add: get_by_baby_part_name_def Let_def records_of_matching
        baby_of_record_columns[OF columns_with_normalized_drop_blank] split: list.splits)

lemma parse_number_not_ValueError:
  "tool_parse_number L v = Inl e \<Longrightarrow> \<not> is_ValueError e"
  "baby_parse_number L v = Inl e \<Longrightarrow> \<not> is_ValueError e"
  by (auto simp: tool_parse_number_def baby_parse_number_def split: if_splits sum.splits)

lemma tool_view_not_ValueError:
  "tool_view L tool name = Inl e \<Longrightarrow> \<not> is_ValueError e"
  unfolding tool_view_def and_then_Inl
  using parse_number_not_ValueError(1) by blast

lemma tool_of_record_not_NotFound: "tool_of_record L col tool \<noteq> Inl (NotFound k)"
  using tool_view_not_ValueError[of L tool _ "NotFound k"] by (auto simp: tool_of_record_def)

lemma baby_of_record_not_NotFound: "baby_of_record L df1 col r \<noteq> Inl (NotFound k)"
  unfolding baby_of_record_def and_then_Inl
  using parse_number_not_ValueError(2)[of L _ "NotFound k"] by auto

lemma caseless_pass_empty:
  "caseless_pass L col q rs = [] \<longleftrightarrow>
     (\<forall>r \<in> set rs. lower (normalized_key L col r) \<noteq> lower (normalized_query L q))"
  by (auto simp: caseless_pass_def filter_empty_conv)

lemma exact_in_caseless:
  "caseless_pass L col q rs = [] \<Longrightarrow> exact_pass L col q rs = []"
  by (auto simp: caseless_pass_def exact_pass_def filter_empty_conv)

text \<open>
  C1. Key resolution in both services, on the rows that have a key (rows with a blank
  key are dropped first). The first pass keeps the rows whose stripped, NFKC-normalized
  key equals the stripped, NFKC-normalized query. If it keeps a row, the result is built
  from the first such row. If it keeps none, the second pass compares the lower-cased
  texts, and the result is built from the first row it keeps. The call fails with
  NotFound exactly when both passes keep nothing, so never when some row matches
  case-insensitively.
\<close>

theorem key_resolution_two_passes:
  "(tool_key_column df = Some col \<longrightarrow>
      (\<forall>r rs. exact_pass L col q (rows (drop_blank L col df)) = r # rs \<longrightarrow>
         get_by_tools_name L df q =
           tool_of_record L col (normalized_record L ''_normalized_part_name'' col df r)) \<and>
      (\<forall>r rs. exact_pass L col q (rows (drop_blank L col df)) = [] \<and>
              caseless_pass L col q (rows (drop_blank L col df)) = r # rs \<longrightarrow>
         get_by_tools_name L df q =
           tool_of_record L col (normalized_record L ''_normalized_part_name'' col df r)) \<and>
      ((\<exists>k. get_by_tools_name L df q = Inl (NotFound k)) \<longleftrightarrow>
         exact_pass L col q (rows (drop_blank L col df)) = [] \<and>
         caseless_pass L col q (rows (drop_blank L col df)) = []) \<and>
      ((\<exists>r \<in> set (rows (drop_blank L col df)).
           lower (normalized_key L col r) = lower (normalized_query L q)) \<longrightarrow>
         (\<forall>k. get_by_tools_name L df q \<noteq> Inl (NotFound k)))) \<and>
   (baby_key_column df = Some bcol \<longrightarrow>
      (\<forall>r rs. exact_pass L bcol q (rows (drop_blank L bcol df)) = r # rs \<longrightarrow>
         get_by_baby_part_name L df q =
           baby_of_record L (with_normalized L ''_normalized_baby_part_name'' bcol df) bcol
             (normalized_record L ''_normalized_baby_part_name'' bcol df r)) \<and>
      (\<forall>r rs. exact_pass L bcol q (rows (drop_blank L bcol df)) = [] \<and>
              caseless_pass L bcol q (rows (drop_blank L bcol df)) = r # rs \<longrightarrow>
         get_by_baby_part_name L df q =
           baby_of_record L (with_normalized L ''_normalized_baby_part_name'' bcol df) bcol
             (normalized_record L ''_normalized_baby_part_name'' bcol df r)) \<and>
      ((\<exists>k. get_by_baby_part_name L df q = Inl (NotFound k)) \<longleftrightarrow>
         exact_pass L bcol q (rows (drop_blank L bcol df)) = [] \<and>
         caseless_pass L bcol q (rows (drop_blank L bcol df)) = []) \<and>
      ((\<exists>r \<in> set (rows (drop_blank L bcol df)).
           lower (normalized_key L bcol r) = lower (normalized_query L q)) \<longrightarrow>
         (\<forall>k. get_by_baby_part_name L df q \<noteq> Inl (NotFound k))))"
proof (intro conjI impI)
  assume c: "tool_key_column df = Some col"
  let ?rs = "rows (drop_blank L col df)"
  note eq = get_by_tools_name_matching[OF c, of L q]
  show "\<forall>r rs. exact_pass L col q ?rs = r # rs \<longrightarrow>
         get_by_tools_name L df q =
           tool_of_record L col (normalized_record L ''_normalized_part_name'' col df r)"
    by (simp add: eq matching_def)
  show "\<forall>r rs. exact_pass L col q ?rs = [] \<and> caseless_pass L col q ?rs = r # rs \<longrightarrow>
         get_by_tools_name L df q =
           tool_of_record L col (normalized_record L ''_normalized_part_name'' col df r)"
    by (simp add: eq matching_def)
  show iff: "(\<exists>k. get_by_tools_name L df q = Inl (NotFound k)) \<longleftrightarrow>
         exact_pass L col q ?rs = [] \<and> caseless_pass L col q ?rs = []"
    by (auto simp: eq matching_def tool_of_record_not_NotFound split: list.splits if_splits)
  assume "\<exists>r \<in> set ?rs. lower (normalized_key L col r) = lower (normalized_query L q)"
  then have "caseless_pass L col q ?rs \<noteq> []" by (simp add: caseless_pass_empty)
  then show "\<forall>k. get_by_tools_name L df q \<noteq> Inl (NotFound k)" using iff by blast
next
  assume c: "baby_key_column df = Some bcol"
  let ?rs = "rows (drop_blank L bcol df)"
  note eq = get_by_baby_part_name_matching[OF c, of L q]
  show "\<forall>r rs. exact_pass L bcol q ?rs = r # rs \<longrightarrow>
         get_by_baby_part_name L df q =
           baby_of_record L (with_normalized L ''_normalized_baby_part_name'' bcol df) bcol
             (normalized_record L ''_normalized_baby_part_name'' bcol df r)"
    by (simp add: eq matching_def)
  show "\<forall>r rs. exact_pass L bcol q ?rs = [] \<and> caseless_pass L bcol q ?rs = r # rs \<longrightarrow>
         get_by_baby_part_name L df q =
           baby_of_record L (with_normalized L ''_normalized_baby_part_name'' bcol df) bcol
             (normalized_record L ''_normalized_baby_part_name'' bcol df r)"
    by (simp add: eq matching_def)
  show iff: "(\<exists>k. get_by_baby_part_name L df q = Inl (NotFound k)) \<longleftrightarrow>
         exact_pass L bcol q ?rs = [] \<and> caseless_pass L bcol q ?rs = []"
    by (auto simp: eq matching_def baby_of_record_not_NotFound split: list.splits if_splits)
  assume "\<exists>r \<in> set ?rs. lower (normalized_key L bcol r) = lower (normalized_query L q)"
  then have "caseless_pass L bcol q ?rs \<noteq> []" by (simp add: caseless_pass_empty)
  then show "\<forall>k. get_by_baby_part_name L df q \<noteq> Inl (NotFound k)" using iff by blast
qed

lemma tool_sheet_key_column: "tool_key_column tool_sheet = Some ''part_name''"
  by (simp add: tool_key_column_def tool_sheet_def)

lemma baby_sheet_key_column: "baby_key_column baby_sheet = Some ''baby_parts''"
  by (simp add: baby_key_column_def baby_sheet_def)

lemma tool_sheet_exact:
  "exact_pass ascii_lib ''part_name'' ''Widget-A''
     (rows (drop_blank ascii_lib ''part_name'' tool_sheet)) =
   [[(''part_name'', PStr ''Widget-A''), (''total'', PInt 5)]]"
  by code_simp

lemma tool_sheet_caseless:
  "exact_pass ascii_lib ''part_name'' ''WIDGET-A''
     (rows (drop_blank ascii_lib ''part_name'' tool_sheet)) = [] \<and>
   caseless_pass ascii_lib ''part_name'' ''WIDGET-A''
     (rows (drop_blank ascii_lib ''part_name'' tool_sheet)) =
   [[(''part_name'', PStr ''Widget-A''), (''total'', PInt 5)],
    [(''part_name'', PStr ''widget-a ''), (''total'', PStr ''7'')]]"
  by code_simp

lemma tool_sheet_no_match:
  "exact_pass ascii_lib ''part_name'' ''Gadget''
     (rows (drop_blank ascii_lib ''part_name'' tool_sheet)) = [] \<and>
   caseless_pass ascii_lib ''part_name'' ''Gadget''
     (rows (drop_blank ascii_lib ''part_name'' tool_sheet)) = []"
  by code_simp

lemma tool_sheet_first_record:
  "tool_of_record ascii_lib ''part_name''
     (normalized_record ascii_lib ''_normalized_part_name'' ''part_name'' tool_sheet
        [(''part_name'', PStr ''Widget-A''), (''total'', PInt 5)]) =
   Inr [(''id'', PStr ''Widget-A''), (''tools_name'', PStr ''Widget-A''),
        (''current_stock'', PInt 5), (''stock_new'', PInt 0),
        (''stock_old'', PInt 0), (''stock_detail'', PStr []),
        (''photo'', PStr []), (''uom'', PStr ''Pcs''), (''remark'', PStr []),
        (''description'', PStr []), (''Part Name'', PStr ''Widget-A''),
        (''Detail Specification'', PStr []), (''Picture'', PStr []),
        (''Total'', PInt 5), (''NEW'', PInt 0), (''OLD'', PInt 0),
        (''UOM'', PStr ''Pcs''), (''Remark'', PStr [])]"
  by code_simp

lemma baby_sheet_caseless:
  "exact_pass ascii_lib ''baby_parts'' ''bolt''
     (rows (drop_blank ascii_lib ''baby_parts'' baby_sheet)) = [] \<and>
   caseless_pass ascii_lib ''baby_parts'' ''bolt''
     (rows (drop_blank ascii_lib ''baby_parts'' baby_sheet)) =
   [[(''baby_parts'', PStr ''Bolt''), (''qty'', PInt 3)]]"
  by code_simp

lemma baby_sheet_first_record:
  "baby_of_record ascii_lib
     (with_normalized ascii_lib ''_normalized_baby_part_name'' ''baby_parts'' baby_sheet)
     ''baby_parts''
     (normalized_record ascii_lib ''_normalized_baby_part_name'' ''baby_parts'' baby_sheet
        [(''baby_parts'', PStr ''Bolt''), (''qty'', PInt 3)]) =
   Inr (baby_view ''Bolt'' 3)"
  by code_simp

theorem key_resolution_two_passes_witness:
  "get_by_tools_name ascii_lib tool_sheet ''Widget-A'' =
     Inr [(''id'', PStr ''Widget-A''), (''tools_name'', PStr ''Widget-A''),
          (''current_stock'', PInt 5), (''stock_new'', PInt 0),
          (''stock_old'', PInt 0), (''stock_detail'', PStr []),
          (''photo'', PStr []), (''uom'', PStr ''Pcs''), (''remark'', PStr []),
          (''description'', PStr []), (''Part Name'', PStr ''Widget-A''),
          (''Detail Specification'', PStr []), (''Picture'', PStr []),
          (''Total'', PInt 5), (''NEW'', PInt 0), (''OLD'', PInt 0),
          (''UOM'', PStr ''Pcs''), (''Remark'', PStr [])] \<and>
   get_by_tools_name ascii_lib tool_sheet ''WIDGET-A'' =
     get_by_tools_name ascii_lib tool_sheet ''Widget-A'' \<and>
   (\<exists>k. get_by_tools_name ascii_lib tool_sheet ''Gadget'' = Inl (NotFound k)) \<and>
   get_by_baby_part_name ascii_lib baby_sheet ''bolt'' = Inr (baby_view ''Bolt'' 3)"
proof -
  note tools = key_resolution_two_passes[THEN conjunct1, rule_format, OF tool_sheet_key_column,
      of ascii_lib]
  note parts = key_resolution_two_passes[THEN conjunct2, rule_format, OF baby_sheet_key_column,
      of ascii_lib]
  have a: "get_by_tools_name ascii_lib tool_sheet ''Widget-A'' =
      tool_of_record ascii_lib ''part_name''
        (normalized_record ascii_lib ''_normalized_part_name'' ''part_name'' tool_sheet
           [(''part_name'', PStr ''Widget-A''), (''total'', PInt 5)])"
    using tools[of "''Widget-A''"] tool_sheet_exact by blast
  have b: "get_by_tools_name ascii_lib tool_sheet ''WIDGET-A'' =
      tool_of_record ascii_lib ''part_name''
        (normalized_record ascii_lib ''_normalized_part_name'' ''part_name'' tool_sheet
           [(''part_name'', PStr ''Widget-A''), (''total'', PInt 5)])"
    using tools[of "''WIDGET-A''"] tool_sheet_caseless by blast
  have c: "\<exists>k. get_by_tools_name ascii_lib tool_sheet ''Gadget'' = Inl (NotFound k)"
    using tools[of "''Gadget''"] tool_sheet_no_match by blast
  have d: "get_by_baby_part_name ascii_lib baby_sheet ''bolt'' =
      baby_of_record ascii_lib
        (with_normalized ascii_lib ''_normalized_baby_part_name'' ''baby_parts'' baby_sheet)
        ''baby_parts''
        (normalized_record ascii_lib ''_normalized_baby_part_name'' ''baby_parts'' baby_sheet
           [(''baby_parts'', PStr ''Bolt''), (''qty'', PInt 3)])"
    using parts[of "''bolt''"] baby_sheet_caseless by blast
  show ?thesis
    using a b c d by (simp add: tool_sheet_first_record baby_sheet_first_record)
qed

end
